theory Spec2Isabelle
  imports Complex_Main "HOL-Library.Word" "HOL-Library.Sublist"
begin

section \<open>NebulaForge: the procedural generator (backend/src/proceduralGenerator.ts)\<close>

text \<open>
  Conventions of the embedding.
  \<^item> A JavaScript number is an exact rational (\<open>rat\<close>); integer-valued numbers that are
    used as indices or counts are \<open>int\<close> or \<open>nat\<close>. Floating-point rounding is not modelled.
  \<^item> A JavaScript string is a \<open>string\<close>: a list of code units below 256.
  \<^item> A value that may be \<open>undefined\<close> is an \<open>option\<close>; \<open>a ?? b\<close> is a case distinction.
  \<^item> The closure returned by \<open>createGenerator\<close> owns one mutable variable; it is the
    explicit state \<open>rng\<close>, passed to and returned by every function that draws.
    A second embedding keeps the variables of all closures in one store and is shown to
    compute the same results.
  \<^item> Reading a property of \<open>undefined\<close> throws a \<open>TypeError\<close>; it is the \<open>Inl\<close> branch of
    the result of \<open>generateModelSpec\<close>.
  \<^item> \<open>crypto.createHash('sha256')\<close> is a library of the platform: the first 32 bits of
    the digest (the first eight hexadecimal digits, read by \<open>parseInt(_, 16)\<close>) are a
    parameter \<open>sha256\<close> of the functions that need them.
\<close>

subsection \<open>Data model\<close>

type_synonym Vec3 = "rat \<times> rat \<times> rat"

datatype GeometryKind = Sphere | Box | Torus | Cylinder | Cone | Icosahedron

datatype GeometrySpec =
    SphereGeometry rat int int            \<comment> \<open>radius, widthSegments, heightSegments\<close>
  | BoxGeometry rat rat rat               \<comment> \<open>width, height, depth\<close>
  | TorusGeometry rat rat int int rat     \<comment> \<open>radius, tube, radialSegments, tubularSegments, arc\<close>
  | CylinderGeometry rat rat rat int int bool
      \<comment> \<open>radiusTop, radiusBottom, height, radialSegments, heightSegments, openEnded\<close>
  | ConeGeometry rat rat int int          \<comment> \<open>radius, height, radialSegments, heightSegments\<close>
  | IcosahedronGeometry rat int           \<comment> \<open>radius, detail\<close>

datatype Environment = Studio | City | Sunset | Nebula

datatype DetailBias = Neutral | Organic | Mechanical

datatype error = TypeError

record MaterialSpec =
  color :: "string option"
  metalness :: rat
  roughness :: rat
  emissive :: "string option"
  wireframe :: "bool option"
  useTexture :: "bool option"

record MeshModifiers =
  noiseAmplitude :: "rat option"
  noiseFrequency :: "rat option"
  noiseOffset :: "rat option"
  twistStrength :: "rat option"
  taperStrength :: "rat option"
  squash :: "rat option"

record MeshTransform =
  position :: Vec3
  rotation :: Vec3
  scale :: Vec3

record MeshDescriptor =
  mesh_id :: string
  name :: string
  geometry :: GeometrySpec
  material :: MaterialSpec
  transform :: MeshTransform
  modifiers :: "MeshModifiers option"

record ProceduralModelSpec =
  prompt :: string
  seed :: nat
  environment :: Environment
  accentColor :: "string option"
  meshes :: "MeshDescriptor list"

record ThemeModifiers =
  base_noiseAmplitude :: rat
  base_noiseFrequency :: rat
  base_twistStrength :: rat
  base_taperStrength :: rat
  base_squash :: rat

record ThemePreset =
  theme_id :: string
  theme_keywords :: "string list"
  primaryGeometry :: GeometryKind
  secondaryGeometries :: "GeometryKind list"
  theme_palette :: "string list"
  base_metalness :: rat
  base_roughness :: rat
  theme_environment :: Environment
  theme_accentColor :: string
  theme_modifiers :: ThemeModifiers

record PromptHints =
  geometryPreference :: "GeometryKind option"
  paletteOverride :: "string list option"
  hint_accentColor :: "string option"
  environmentHint :: "Environment option"
  preferredThemeId :: "string option"
  detailBias :: DetailBias
  meshTarget :: "int option"

record DescriptorContext =
  ctx_palette :: "string list"
  ctx_accentColor :: string
  ctx_primaryGeometry :: "GeometryKind option"
  ctx_detailBias :: DetailBias

type_synonym rng = nat

record ShapeTemplate =
  template_id :: string
  template_keywords :: "string list"
  template_environment :: "Environment option"
  buildMeshes :: "string list \<Rightarrow> string option \<Rightarrow> rng \<Rightarrow> MeshDescriptor list \<times> rng"

subsection \<open>The platform: strings, arrays, numbers\<close>

definition isWhiteSpace :: "char \<Rightarrow> bool" where
  \<comment> \<open>the code units below 256 that \<open>String.prototype.trim\<close> strips\<close>
  "isWhiteSpace c = ((of_char c :: nat) \<in> {9, 10, 11, 12, 13, 32, 160})"

definition trim :: "string \<Rightarrow> string" where
  "trim s = rev (dropWhile isWhiteSpace (rev (dropWhile isWhiteSpace s)))"

definition lower_char :: "char \<Rightarrow> char" where
  "lower_char c =
     (let n = (of_char c :: nat)
      in if (65 \<le> n \<and> n \<le> 90) \<or> (192 \<le> n \<and> n \<le> 222 \<and> n \<noteq> 215)
         then char_of (n + 32) else c)"

definition toLowerCase :: "string \<Rightarrow> string" where
  "toLowerCase s = map lower_char s"

fun str_includes :: "string \<Rightarrow> string \<Rightarrow> bool" where
  "str_includes [] t = (t = [])"
| "str_includes (c # cs) t = (prefix t (c # cs) \<or> str_includes cs t)"

definition includesAny :: "string \<Rightarrow> string list \<Rightarrow> bool" where
  "includesAny text terms = list_ex (\<lambda>t. str_includes text t) terms"

definition js_index :: "'a list \<Rightarrow> int \<Rightarrow> 'a option" where
  \<comment> \<open>\<open>xs[i]\<close>: \<open>undefined\<close> outside the array\<close>
  "js_index xs i = (if 0 \<le> i \<and> i < int (length xs) then Some (xs ! nat i) else None)"

fun dedupe :: "'a list \<Rightarrow> 'a list" where
  \<comment> \<open>\<open>Array.from(new Set(xs))\<close>: the first occurrence of each element, in order\<close>
  "dedupe [] = []"
| "dedupe (x # xs) = x # dedupe (filter (\<lambda>y. y \<noteq> x) xs)"

definition clamp :: "'a::linorder \<Rightarrow> 'a \<Rightarrow> 'a \<Rightarrow> 'a" where
  "clamp v mn mx = min mx (max mn v)"

definition Math_PI :: rat where
  \<comment> \<open>the double \<open>Math.PI\<close>, exactly\<close>
  "Math_PI = 884279719003555 / 281474976710656"

definition Math_round :: "rat \<Rightarrow> int" where
  "Math_round x = \<lfloor>x + 1 / 2\<rfloor>"

fun digits :: "nat \<Rightarrow> string" where
  "digits n = (if n < 10 then [char_of (48 + n)] else digits (n div 10) @ [char_of (48 + n mod 10)])"

declare digits.simps [simp del]

definition int_toString :: "int \<Rightarrow> string" where
  "int_toString i = (if i < 0 then CHR ''-'' # digits (nat (- i)) else digits (nat i))"

fun split_on :: "char \<Rightarrow> string \<Rightarrow> string list" where
  \<comment> \<open>\<open>s.split(c)\<close> for a one-character separator\<close>
  "split_on c [] = [[]]"
| "split_on c (x # xs) =
     (if x = c then [] # split_on c xs
      else (case split_on c xs of [] \<Rightarrow> [[x]] | w # ws \<Rightarrow> (x # w) # ws))"

subsection \<open>Catalogs\<close>

definition THEME_PRESETS :: "ThemePreset list" where
  "THEME_PRESETS = [
    \<lparr> theme_id = ''mechanical'',
      theme_keywords = [''robot'', ''mech'', ''machine'', ''engine'', ''industrial'', ''drone'',
        ''armor'', ''cyber'', ''android'', ''gear'', ''factory''],
      primaryGeometry = Box,
      secondaryGeometries = [Cylinder, Box, Torus],
      theme_palette = [''#94a3b8'', ''#facc15'', ''#0f172a'', ''#cbd5f5''],
      base_metalness = 0.85, base_roughness = 0.25,
      theme_environment = City,
      theme_accentColor = ''#facc15'',
      theme_modifiers = \<lparr> base_noiseAmplitude = 0.08, base_noiseFrequency = 2.4,
        base_twistStrength = 0.15, base_taperStrength = 0.05, base_squash = 0.12 \<rparr> \<rparr>,
    \<lparr> theme_id = ''organic'',
      theme_keywords = [''creature'', ''biologic'', ''organic'', ''flora'', ''nature'', ''plant'',
        ''beast'', ''animal'', ''character'', ''dragon'', ''fauna'', ''alien''],
      primaryGeometry = Sphere,
      secondaryGeometries = [Cone, Sphere, Icosahedron],
      theme_palette = [''#34d399'', ''#0f766e'', ''#bef264'', ''#ecfccb''],
      base_metalness = 0.2, base_roughness = 0.7,
      theme_environment = Sunset,
      theme_accentColor = ''#bef264'',
      theme_modifiers = \<lparr> base_noiseAmplitude = 0.35, base_noiseFrequency = 1.3,
        base_twistStrength = 0.45, base_taperStrength = 0.35, base_squash = 0.25 \<rparr> \<rparr>,
    \<lparr> theme_id = ''aero'',
      theme_keywords = [''spaceship'', ''jet'', ''rocket'', ''craft'', ''vehicle'', ''car'',
        ''fighter'', ''aircraft'', ''shuttle'', ''hover'', ''ship'', ''drone''],
      primaryGeometry = Cylinder,
      secondaryGeometries = [Cone, Box, Torus],
      theme_palette = [''#60a5fa'', ''#f8fafc'', ''#0369a1'', ''#e0f2fe''],
      base_metalness = 0.65, base_roughness = 0.35,
      theme_environment = Studio,
      theme_accentColor = ''#60a5fa'',
      theme_modifiers = \<lparr> base_noiseAmplitude = 0.12, base_noiseFrequency = 3.1,
        base_twistStrength = 0.25, base_taperStrength = 0.15, base_squash = 0.2 \<rparr> \<rparr>,
    \<lparr> theme_id = ''abstract'',
      theme_keywords = [''abstract'', ''symbol'', ''glyph'', ''portal'', ''totem'', ''sculpture'',
        ''sigil'', ''icon'', ''logo''],
      primaryGeometry = Icosahedron,
      secondaryGeometries = [Torus, Sphere, Cone],
      theme_palette = [''#c084fc'', ''#a855f7'', ''#f472b6'', ''#fdf2f8''],
      base_metalness = 0.35, base_roughness = 0.45,
      theme_environment = Nebula,
      theme_accentColor = ''#c084fc'',
      theme_modifiers = \<lparr> base_noiseAmplitude = 0.28, base_noiseFrequency = 2.1,
        base_twistStrength = 0.35, base_taperStrength = 0.2, base_squash = 0.3 \<rparr> \<rparr> ]"

definition vectorNameSeeds :: "string list" where
  "vectorNameSeeds = [''Nebula'', ''Axiom'', ''Vertex'', ''Pulse'', ''Aurora'', ''Helix'', ''Solace'']"

fun geometryTitles :: "GeometryKind \<Rightarrow> string" where
  "geometryTitles Sphere = ''Core''"
| "geometryTitles Box = ''Hull''"
| "geometryTitles Torus = ''Ring''"
| "geometryTitles Cylinder = ''Column''"
| "geometryTitles Cone = ''Spire''"
| "geometryTitles Icosahedron = ''Shard''"

fun kind_toString :: "GeometryKind option \<Rightarrow> string" where
  \<comment> \<open>the string that is the kind; \<open>undefined\<close> in a template literal\<close>
  "kind_toString (Some Sphere) = ''sphere''"
| "kind_toString (Some Box) = ''box''"
| "kind_toString (Some Torus) = ''torus''"
| "kind_toString (Some Cylinder) = ''cylinder''"
| "kind_toString (Some Cone) = ''cone''"
| "kind_toString (Some Icosahedron) = ''icosahedron''"
| "kind_toString None = ''undefined''"

definition GEOMETRY_KEYWORDS :: "(GeometryKind \<times> string list) list" where
  "GEOMETRY_KEYWORDS = [
    (Sphere, [''orb'', ''sphere'', ''globe'', ''planet'', ''eye'', ''bubble'', ''core'']),
    (Box, [''cube'', ''block'', ''fortress'', ''monolith'', ''crate'', ''terminal'']),
    (Torus, [''ring'', ''halo'', ''loop'', ''portal'', ''gateway'', ''donut'']),
    (Cylinder, [''tower'', ''pillar'', ''rocket'', ''barrel'', ''staff'', ''sword'', ''blade'',
       ''engine'', ''cannon'']),
    (Cone, [''spike'', ''spire'', ''pyramid'', ''mountain'', ''fang'', ''icicle'']),
    (Icosahedron, [''crystal'', ''shard'', ''polyhedron'', ''geode'', ''gem'', ''diamond'']) ]"

definition COLOR_KEYWORDS :: "(string \<times> string list) list" where
  "COLOR_KEYWORDS = [
    (''#ef4444'', [''red'', ''scarlet'', ''crimson'', ''ruby'']),
    (''#f59e0b'', [''gold'', ''amber'', ''sunset'', ''bronze'', ''copper'']),
    (''#3b82f6'', [''blue'', ''azure'', ''sapphire'', ''cyan'']),
    (''#22c55e'', [''green'', ''emerald'', ''jade'', ''lime'']),
    (''#a855f7'', [''purple'', ''violet'', ''magenta'', ''neon'']),
    (''#f472b6'', [''pink'', ''rose'', ''fuchsia'']),
    (''#e5e7eb'', [''white'', ''silver'', ''pearl'']),
    (''#1f2937'', [''black'', ''obsidian'', ''onyx'', ''shadow'']),
    (''#f97316'', [''orange'', ''sunrise'', ''ember'']),
    (''#94a3b8'', [''steel'', ''gray'', ''gunmetal'']) ]"

definition ENVIRONMENT_KEYWORDS :: "(Environment \<times> string list) list" where
  "ENVIRONMENT_KEYWORDS = [
    (Studio, [''studio'', ''product'', ''turntable'', ''showroom'']),
    (City, [''city'', ''urban'', ''neon'', ''street'', ''industrial'']),
    (Sunset, [''sunset'', ''dusk'', ''golden hour'', ''desert'', ''forest'']),
    (Nebula, [''space'', ''nebula'', ''galaxy'', ''cosmic'', ''void'']) ]"

definition MULTI_OBJECT_KEYWORDS :: "string list" where
  "MULTI_OBJECT_KEYWORDS = [''fleet'', ''swarm'', ''array'', ''cluster'', ''forest'', ''army'',
     ''collection'', ''pack'', ''hive'']"

definition SINGLE_OBJECT_KEYWORDS :: "string list" where
  "SINGLE_OBJECT_KEYWORDS = [''statue'', ''bust'', ''monolith'', ''idol'', ''single'', ''solo'',
     ''portrait'']"

definition DETAIL_BIAS_KEYWORDS_organic :: "string list" where
  "DETAIL_BIAS_KEYWORDS_organic = [''creature'', ''organic'', ''flora'', ''fauna'', ''dragon'',
     ''beast'', ''character'', ''alien'', ''mythic'']"

definition DETAIL_BIAS_KEYWORDS_mechanical :: "string list" where
  "DETAIL_BIAS_KEYWORDS_mechanical = [''robot'', ''mech'', ''engine'', ''industrial'', ''armor'',
     ''cyber'', ''drone'', ''vehicle'', ''turret'']"

definition TEMPLATE_DEFAULT_PALETTE :: "string list" where
  "TEMPLATE_DEFAULT_PALETTE = [''#d4b48c'', ''#1f1f1f'', ''#f5f5f5'']"

subsection \<open>Seed and generator\<close>

definition createSeed :: "(string \<Rightarrow> 32 word) \<Rightarrow> string \<Rightarrow> nat" where
  "createSeed sha256 p = unat (sha256 p)"

definition createGenerator :: "nat \<Rightarrow> rng" where
  "createGenerator sd = sd"

definition rand :: "rng \<Rightarrow> rat \<times> rng" where
  \<comment> \<open>one call of the closure: the new state and the draw\<close>
  "rand state =
     (let state' = (state * 16807) mod 2147483647
      in ((of_nat state' - 1) / 2147483646, state'))"

definition randomRange :: "rng \<Rightarrow> rat \<Rightarrow> rat \<Rightarrow> rat \<times> rng" where
  "randomRange s mn mx = (let (r, s') = rand s in (mn + (mx - mn) * r, s'))"

subsection \<open>Prompt hints\<close>

definition analyzePromptHints :: "string \<Rightarrow> PromptHints" where
  "analyzePromptHints p =
     (let normalized = toLowerCase p;
          geometryPreference =
            map_option fst (find (\<lambda>(_, terms). includesAny normalized terms) GEOMETRY_KEYWORDS);
          paletteOverride =
            foldl (\<lambda>acc (hex, terms). if includesAny normalized terms then acc @ [hex] else acc)
              [] COLOR_KEYWORDS;
          environmentHint =
            map_option fst (find (\<lambda>(_, terms). includesAny normalized terms) ENVIRONMENT_KEYWORDS);
          preferredThemeId =
            map_option theme_id
              (find (\<lambda>preset. list_ex (\<lambda>keyword. str_includes normalized keyword)
                 (theme_keywords preset)) THEME_PRESETS);
          detailBias =
            (if includesAny normalized DETAIL_BIAS_KEYWORDS_organic then Organic
             else if includesAny normalized DETAIL_BIAS_KEYWORDS_mechanical then Mechanical
             else Neutral);
          meshTarget =
            (if includesAny normalized SINGLE_OBJECT_KEYWORDS then Some 1
             else if includesAny normalized MULTI_OBJECT_KEYWORDS then Some 4
             else None)
      in \<lparr> geometryPreference = geometryPreference,
           paletteOverride = (if length paletteOverride \<noteq> 0 then Some (dedupe paletteOverride) else None),
           hint_accentColor = js_index paletteOverride 0,
           environmentHint = environmentHint,
           preferredThemeId = preferredThemeId,
           detailBias = detailBias,
           meshTarget = meshTarget \<rparr>)"

subsection \<open>Palette and theme\<close>

definition resolvePalette :: "ThemePreset \<Rightarrow> PromptHints \<Rightarrow> string list \<times> string" where
  "resolvePalette theme hints =
     (case paletteOverride hints of
        None \<Rightarrow>
          (theme_palette theme,
           case hint_accentColor hints of Some a \<Rightarrow> a | None \<Rightarrow> theme_accentColor theme)
      | Some ov \<Rightarrow>
          if length ov = 0
          then (theme_palette theme,
                case hint_accentColor hints of Some a \<Rightarrow> a | None \<Rightarrow> theme_accentColor theme)
          else
            (let merged = dedupe (ov @ theme_palette theme);
                 palette = take (max (length (theme_palette theme)) (length merged)) merged
             in (palette,
                 case hint_accentColor hints of
                   Some a \<Rightarrow> a
                 | None \<Rightarrow> (case js_index palette 0 of Some c \<Rightarrow> c
                            | None \<Rightarrow> theme_accentColor theme))))"

definition pickTheme :: "string \<Rightarrow> rng \<Rightarrow> PromptHints option \<Rightarrow> ThemePreset option \<times> rng" where
  \<comment> \<open>\<open>None\<close> is \<open>THEME_PRESETS[i]\<close> read outside the array\<close>
  "pickTheme p s hints =
     (let explicit =
            (case (case hints of Some h \<Rightarrow> preferredThemeId h | None \<Rightarrow> None) of
               Some pid \<Rightarrow>
                 if pid \<noteq> [] then find (\<lambda>preset. theme_id preset = pid) THEME_PRESETS else None
             | None \<Rightarrow> None)
      in case explicit of
           Some preset \<Rightarrow> (Some preset, s)
         | None \<Rightarrow>
            (let normalized = toLowerCase p;
                 matched = find (\<lambda>preset. list_ex (\<lambda>keyword. str_includes normalized keyword)
                             (theme_keywords preset)) THEME_PRESETS
             in case matched of
                  Some preset \<Rightarrow> (Some preset, s)
                | None \<Rightarrow>
                    (let (r, s') = rand s
                     in (js_index THEME_PRESETS \<lfloor>r * of_nat (length THEME_PRESETS)\<rfloor>, s'))))"

subsection \<open>Named templates\<close>

definition createTemplateId :: "string \<Rightarrow> rng \<Rightarrow> string \<times> rng" where
  "createTemplateId pre s =
     (let (r, s') = rand s in (pre @ ''-'' @ int_toString (Math_round (r * 1000000)), s'))"

definition cricket_bat_buildMeshes ::
  "string list \<Rightarrow> string option \<Rightarrow> rng \<Rightarrow> MeshDescriptor list \<times> rng" where
  "cricket_bat_buildMeshes palette accent s0 =
     (let colors = (if length palette \<noteq> 0 then palette else TEMPLATE_DEFAULT_PALETTE);
          wood = (case js_index colors 0 of Some c \<Rightarrow> c | None \<Rightarrow> ''#d4b48c'');
          grip = (case js_index colors 1 of Some c \<Rightarrow> c | None \<Rightarrow> ''#171717'');
          sticker = (case accent of
                       Some a \<Rightarrow> a
                     | None \<Rightarrow> (case js_index colors 2 of Some c \<Rightarrow> c | None \<Rightarrow> ''#f97316''));
          (id1, s1) = createTemplateId ''bat-blade'' s0;
          (id2, s2) = createTemplateId ''bat-handle'' s1;
          (id3, s3) = createTemplateId ''bat-cap'' s2
      in ([
        \<lparr> mesh_id = id1,
          name = ''Cricket-Blade'',
          geometry = BoxGeometry 0.45 2.2 0.32,
          material = \<lparr> color = Some wood, metalness = 0.08, roughness = 0.72,
            emissive = None, wireframe = Some False, useTexture = Some True \<rparr>,
          transform = \<lparr> position = (0, 0.4, 0),
            rotation = (- Math_PI * 0.02, 0, Math_PI * 0.05),
            scale = (1, 1, 1) \<rparr>,
          modifiers = Some \<lparr> noiseAmplitude = Some 0.015, noiseFrequency = None,
            noiseOffset = None, twistStrength = None, taperStrength = Some 0.3,
            squash = Some 0.12 \<rparr> \<rparr>,
        \<lparr> mesh_id = id2,
          name = ''Cricket-Handle'',
          geometry = CylinderGeometry 0.12 0.15 1.5 48 1 False,
          material = \<lparr> color = Some grip, metalness = 0.05, roughness = 0.45,
            emissive = None, wireframe = Some False, useTexture = Some False \<rparr>,
          transform = \<lparr> position = (0, 1.35, - 0.05),
            rotation = (Math_PI / 2, 0, 0),
            scale = (1, 1, 1) \<rparr>,
          modifiers = Some \<lparr> noiseAmplitude = Some 0.03, noiseFrequency = None,
            noiseOffset = None, twistStrength = Some 0.25, taperStrength = None,
            squash = None \<rparr> \<rparr>,
        \<lparr> mesh_id = id3,
          name = ''Bat-Logo-Panel'',
          geometry = BoxGeometry 0.4 0.9 0.05,
          material = \<lparr> color = Some sticker, metalness = 0.2, roughness = 0.4,
            emissive = accent, wireframe = Some False, useTexture = Some False \<rparr>,
          transform = \<lparr> position = (0, 0.2, 0.18),
            rotation = (0, 0, Math_PI * 0.05),
            scale = (1, 1, 1) \<rparr>,
          modifiers = Some \<lparr> noiseAmplitude = Some 0.01, noiseFrequency = None,
            noiseOffset = None, twistStrength = None, taperStrength = None,
            squash = None \<rparr> \<rparr> ], s3))"

definition SHAPE_TEMPLATES :: "ShapeTemplate list" where
  "SHAPE_TEMPLATES = [
     \<lparr> template_id = ''cricket-bat'',
       template_keywords = [''cricket bat'', ''bat''],
       template_environment = Some Studio,
       buildMeshes = cricket_bat_buildMeshes \<rparr> ]"

definition tryTemplateSpec :: "string \<Rightarrow> PromptHints \<Rightarrow> nat \<Rightarrow> ProceduralModelSpec option" where
  "tryTemplateSpec p hints sd =
     (let normalized = toLowerCase p
      in case find (\<lambda>shape. includesAny normalized (template_keywords shape)) SHAPE_TEMPLATES of
           None \<Rightarrow> None
         | Some template \<Rightarrow>
            (let s = createGenerator sd;
                 palette = (case paletteOverride hints of
                              Some ov \<Rightarrow> if length ov \<noteq> 0 then ov else TEMPLATE_DEFAULT_PALETTE
                            | None \<Rightarrow> TEMPLATE_DEFAULT_PALETTE);
                 accent = (case hint_accentColor hints of
                             Some a \<Rightarrow> Some a
                           | None \<Rightarrow> js_index palette 0)
             in Some \<lparr> prompt = p,
                       seed = sd,
                       environment =
                         (case template_environment template of
                            Some e \<Rightarrow> e
                          | None \<Rightarrow> (case environmentHint hints of Some e \<Rightarrow> e | None \<Rightarrow> Studio)),
                       accentColor = accent,
                       meshes = fst (buildMeshes template palette accent s) \<rparr>))"

subsection \<open>Mesh composition\<close>

fun createGeometry :: "GeometryKind option \<Rightarrow> rng \<Rightarrow> GeometrySpec \<times> rng" where
  "createGeometry (Some Sphere) s0 =
     (let (radius, s1) = randomRange s0 1.1 1.8;
          (r2, s2) = rand s1;
          (r3, s3) = rand s2
      in (SphereGeometry radius (32 + \<lfloor>r2 * 16\<rfloor>) (32 + \<lfloor>r3 * 16\<rfloor>), s3))"
| "createGeometry (Some Box) s0 =
     (let (width, s1) = randomRange s0 1 2.2;
          (height, s2) = randomRange s1 1 1.6;
          (depth, s3) = randomRange s2 1 2
      in (BoxGeometry width height depth, s3))"
| "createGeometry (Some Torus) s0 =
     (let (radius, s1) = randomRange s0 1.2 1.9;
          (tube, s2) = randomRange s1 0.2 0.5;
          (r3, s3) = rand s2;
          (r4, s4) = rand s3
      in (TorusGeometry radius tube (16 + \<lfloor>r3 * 16\<rfloor>) (48 + \<lfloor>r4 * 32\<rfloor>) (Math_PI * 2), s4))"
| "createGeometry (Some Cylinder) s0 =
     (let (radiusTop, s1) = randomRange s0 0.5 1.2;
          (radiusBottom, s2) = randomRange s1 0.8 1.5;
          (height, s3) = randomRange s2 2 3.2;
          (r4, s4) = rand s3;
          (r5, s5) = rand s4
      in (CylinderGeometry radiusTop radiusBottom height (32 + \<lfloor>r4 * 16\<rfloor>) (1 + \<lfloor>r5 * 3\<rfloor>) False,
          s5))"
| "createGeometry (Some Cone) s0 =
     (let (radius, s1) = randomRange s0 0.7 1.4;
          (height, s2) = randomRange s1 1.4 2.4;
          (r3, s3) = rand s2;
          (r4, s4) = rand s3
      in (ConeGeometry radius height (32 + \<lfloor>r3 * 16\<rfloor>) (1 + \<lfloor>r4 * 2\<rfloor>), s4))"
| "createGeometry _ s0 =
     (let (radius, s1) = randomRange s0 1.2 1.7;
          (r2, s2) = rand s1
      in (IcosahedronGeometry radius \<lfloor>r2 * 2\<rfloor>, s2))"

definition createTransform :: "rng \<Rightarrow> nat \<Rightarrow> MeshTransform \<times> rng" where
  "createTransform s0 index =
     (if index = 0
      then (\<lparr> position = (0, 0, 0), rotation = (0, 0, 0), scale = (1, 1, 1) \<rparr>, s0)
      else
        (let (px, s1) = randomRange s0 (- 1.2) 1.2;
             (py, s2) = randomRange s1 (- 0.2) 1.2;
             (pz, s3) = randomRange s2 (- 1.1) 1.1;
             (rx, s4) = randomRange s3 (- 0.4) 0.4;
             (ry, s5) = randomRange s4 0 (Math_PI * 2);
             (rz, s6) = randomRange s5 (- 0.4) 0.4;
             (sx, s7) = randomRange s6 0.45 0.9;
             (sy, s8) = randomRange s7 0.45 0.9;
             (sz, s9) = randomRange s8 0.45 0.9
         in (\<lparr> position = (px, py, pz), rotation = (rx, ry, rz), scale = (sx, sy, sz) \<rparr>, s9)))"

definition createMeshName :: "string \<Rightarrow> GeometryKind option \<Rightarrow> rng \<Rightarrow> nat \<Rightarrow> string \<times> rng" where
  "createMeshName p geo s index =
     (let primaryDescriptor =
            (case find (\<lambda>w. w \<noteq> []) (split_on CHR '' '' p) of
               Some w \<Rightarrow> w | None \<Rightarrow> ''Artifact'');
          base = (case geo of Some k \<Rightarrow> geometryTitles k | None \<Rightarrow> ''Element'');
          (r, s') = rand s;
          pre = (case js_index vectorNameSeeds \<lfloor>r * of_nat (length vectorNameSeeds)\<rfloor> of
                   Some w \<Rightarrow> w | None \<Rightarrow> ''undefined'')
      in (pre @ ''-'' @ base @ ''-'' @ (if index = 0 then ''Prime'' else primaryDescriptor), s'))"

text \<open>
  The first statements of \<open>createMeshDescriptor\<close>, named after its local constants:
  the two candidate lists (\<open>filter(Boolean)\<close> keeps both entries of the first, a
  kind being a non-empty string), the pool of the index, and the kind selected from it, with
  the draw from the theme's secondary geometries where the pool yields \<open>undefined\<close>.
\<close>

definition primaryCandidates :: "ThemePreset \<Rightarrow> DescriptorContext \<Rightarrow> GeometryKind list" where
  "primaryCandidates theme context =
     [case ctx_primaryGeometry context of Some g \<Rightarrow> g | None \<Rightarrow> primaryGeometry theme,
      primaryGeometry theme]"

definition secondaryCandidates :: "ThemePreset \<Rightarrow> DescriptorContext \<Rightarrow> GeometryKind list" where
  "secondaryCandidates theme context =
     (case ctx_primaryGeometry context of Some g \<Rightarrow> [g] | None \<Rightarrow> [])
     @ secondaryGeometries theme"

definition geometryPool :: "ThemePreset \<Rightarrow> DescriptorContext \<Rightarrow> nat \<Rightarrow> GeometryKind list" where
  "geometryPool theme context index =
     (if index = 0 then primaryCandidates theme context else secondaryCandidates theme context)"

definition geometryKind ::
  "ThemePreset \<Rightarrow> DescriptorContext \<Rightarrow> nat \<Rightarrow> rng \<Rightarrow> GeometryKind option \<times> rng" where
  "geometryKind theme context index s0 =
     (let pool = geometryPool theme context index;
          (r1, s1) = rand s0
      in case js_index pool \<lfloor>r1 * of_nat (length pool)\<rfloor> of
           Some k \<Rightarrow> (Some k, s1)
         | None \<Rightarrow>
            (let (r2, s2) = rand s1
             in (js_index (secondaryGeometries theme)
                   \<lfloor>r2 * of_nat (length (secondaryGeometries theme))\<rfloor>, s2)))"

definition createMeshDescriptor ::
  "ThemePreset \<Rightarrow> string \<Rightarrow> rng \<Rightarrow> nat \<Rightarrow> DescriptorContext \<Rightarrow> MeshDescriptor \<times> rng" where
  "createMeshDescriptor theme p s0 index context =
     (let palette = (if length (ctx_palette context) \<noteq> 0 then ctx_palette context
                     else theme_palette theme);
          (kind, s2) = geometryKind theme context index s0;
          (geo, s3) = createGeometry kind s2;
          (trans, s4) = createTransform s3 index;
          (paletteIndex, s5) =
            (if index = 0 \<or> length palette = 1
             then (clamp 0 0 (max 0 (int (length palette) - 1)), s4)
             else (let (r, s) = rand s4
                   in (clamp (1 + \<lfloor>r * of_int (max 1 (int (length palette) - 1))\<rfloor>) 0
                         (max 0 (int (length palette) - 1)), s)));
          detailMultiplier =
            (if ctx_detailBias context = Organic then 1.25
             else if ctx_detailBias context = Mechanical then 0.65 else 1);
          (j1, s6) = randomRange s5 0.9 1.4;
          (j2, s7) = randomRange s6 0.8 1.2;
          (r3, s8) = rand s7;
          (j4, s9) = randomRange s8 0.7 1.3;
          (j5, s10) = randomRange s9 0.5 1.2;
          (j6, s11) = randomRange s10 0.8 1.2;
          mods = \<lparr> noiseAmplitude = Some (base_noiseAmplitude (theme_modifiers theme) * j1 * detailMultiplier),
                   noiseFrequency = Some (base_noiseFrequency (theme_modifiers theme) * j2),
                   noiseOffset = Some (r3 * Math_PI * 2),
                   twistStrength = Some (base_twistStrength (theme_modifiers theme) * j4 * detailMultiplier),
                   taperStrength = Some (base_taperStrength (theme_modifiers theme) * j5 * detailMultiplier),
                   squash = Some (base_squash (theme_modifiers theme) * j6) \<rparr>;
          mods' =
            (if ctx_detailBias context = Mechanical
             then mods \<lparr> noiseAmplitude := Some ((case noiseAmplitude mods of Some x \<Rightarrow> x | None \<Rightarrow> 0) * 0.8),
                         taperStrength := Some ((case taperStrength mods of Some x \<Rightarrow> x | None \<Rightarrow> 0) * 0.7),
                         squash := Some ((case squash mods of Some x \<Rightarrow> x | None \<Rightarrow> 0) * 0.6) \<rparr>
             else mods);
          metalnessBias =
            (if ctx_detailBias context = Organic then - 0.2
             else if ctx_detailBias context = Mechanical then 0.15 else 0);
          roughnessBias =
            (if ctx_detailBias context = Organic then 0.2
             else if ctx_detailBias context = Mechanical then - 0.1 else 0);
          (wire, s12) =
            (if index > 0 then (let (r, s) = rand s11 in (r > 0.85, s)) else (False, s11));
          mat = \<lparr> color = (case js_index palette paletteIndex of
                            Some c \<Rightarrow> Some c | None \<Rightarrow> js_index (theme_palette theme) 0),
                  metalness = clamp (base_metalness theme + metalnessBias) 0 1,
                  roughness = clamp (base_roughness theme + roughnessBias) 0 1,
                  emissive = (if index = 0 then Some (ctx_accentColor context) else None),
                  wireframe = Some wire,
                  useTexture = Some (index = 0) \<rparr>;
          (r13, s13) = rand s12;
          (nm, s14) = createMeshName p kind s13 index
      in (\<lparr> mesh_id = kind_toString kind @ ''-'' @ int_toString (int index) @ ''-''
                        @ int_toString (Math_round (r13 * 1000000)),
            name = nm,
            geometry = geo,
            material = mat,
            transform = trans,
            modifiers = Some mods' \<rparr>, s14))"

subsection \<open>The generator\<close>

function meshes_loop ::
  "ThemePreset \<Rightarrow> string \<Rightarrow> DescriptorContext \<Rightarrow> int \<Rightarrow> nat \<Rightarrow> rng \<Rightarrow> MeshDescriptor list" where
  \<comment> \<open>\<open>for (let i = 0; i < clampedMeshCount; i++) meshes.push(...)\<close>, from \<open>i\<close> on\<close>
  "meshes_loop theme p context n i s =
     (if int i < n
      then (case createMeshDescriptor theme p s i context of
              (m, s') \<Rightarrow> m # meshes_loop theme p context n (Suc i) s')
      else [])"
  by pat_completeness auto
termination
  by (relation "measure (\<lambda>(theme, p, context, n, i, s). nat (n - int i))") auto

declare meshes_loop.simps [simp del]

definition fallbackPrompt :: "string option \<Rightarrow> string" where
  \<comment> \<open>\<open>prompt?.trim().length ? prompt : 'abstract artifact'\<close>\<close>
  "fallbackPrompt p =
     (case p of
        None \<Rightarrow> ''abstract artifact''
      | Some q \<Rightarrow> if length (trim q) \<noteq> 0 then q else ''abstract artifact'')"

definition meshCount :: "PromptHints \<Rightarrow> rng \<Rightarrow> int \<times> rng" where
  \<comment> \<open>\<open>hints.meshTarget ?? (2 + Math.floor(rand() * 3))\<close>\<close>
  "meshCount hints s =
     (case meshTarget hints of
        Some t \<Rightarrow> (t, s)
      | None \<Rightarrow> (let (r, s') = rand s in (2 + \<lfloor>r * 3\<rfloor>, s')))"

definition generateModelSpec ::
  "(string \<Rightarrow> 32 word) \<Rightarrow> string option \<Rightarrow> error + ProceduralModelSpec" where
  "generateModelSpec sha256 p =
     (let fp = fallbackPrompt p;
          sd = createSeed sha256 fp;
          s0 = createGenerator sd;
          hints = analyzePromptHints fp
      in case tryTemplateSpec fp hints sd of
           Some templateSpec \<Rightarrow> Inr templateSpec
         | None \<Rightarrow>
            (case pickTheme fp s0 (Some hints) of
               (None, s1) \<Rightarrow> Inl TypeError
             | (Some theme, s1) \<Rightarrow>
                (let (palette, accent) = resolvePalette theme hints;
                     env = (case environmentHint hints of
                              Some e \<Rightarrow> e | None \<Rightarrow> theme_environment theme);
                     (count, s2) = meshCount hints s1;
                     clampedMeshCount = clamp count 1 4;
                     context = \<lparr> ctx_palette = palette,
                                 ctx_accentColor = accent,
                                 ctx_primaryGeometry = geometryPreference hints,
                                 ctx_detailBias = detailBias hints \<rparr>
                 in Inr \<lparr> prompt = fp,
                          seed = sd,
                          environment = env,
                          accentColor = Some accent,
                          meshes = meshes_loop theme fp context clampedMeshCount 0 s2 \<rparr>)))"

subsection \<open>The generator with its closures in a store\<close>

text \<open>
  A second embedding of the functions that draw, in which nothing about the generator is
  local by construction. The world holds the variable \<open>value\<close> of every closure that
  \<open>createGenerator\<close> has returned so far, in this call or an earlier one, under a handle;
  \<open>createGenerator\<close> takes the next handle, and a call of the closure reads and assigns the
  variable of its handle. The parameter \<open>rand\<close> of the source functions is the handle \<open>h\<close>.
  The functions that do not draw (\<open>analyzePromptHints\<close>, \<open>resolvePalette\<close>, the catalogs)
  are the ones above.
\<close>

record world =
  next_handle :: nat
  cell :: "nat \<Rightarrow> nat"

record st_ShapeTemplate =
  st_template_id :: string
  st_template_keywords :: "string list"
  st_template_environment :: "Environment option"
  st_buildMeshes :: "string list \<Rightarrow> string option \<Rightarrow> nat \<Rightarrow> world \<Rightarrow> MeshDescriptor list \<times> world"

definition st_createGenerator :: "nat \<Rightarrow> world \<Rightarrow> nat \<times> world" where
  \<comment> \<open>\<open>let value = seed\<close>: a new variable, captured by the closure that is returned\<close>
  "st_createGenerator sd w =
     (next_handle w,
      w\<lparr> next_handle := Suc (next_handle w), cell := (cell w)(next_handle w := sd) \<rparr>)"

definition st_rand :: "nat \<Rightarrow> world \<Rightarrow> rat \<times> world" where
  \<comment> \<open>a call of the closure \<open>h\<close>: it assigns to its own variable\<close>
  "st_rand h w =
     (let state' = (cell w h * 16807) mod 2147483647
      in ((of_nat state' - 1) / 2147483646, w\<lparr> cell := (cell w)(h := state') \<rparr>))"

definition st_randomRange :: "nat \<Rightarrow> rat \<Rightarrow> rat \<Rightarrow> world \<Rightarrow> rat \<times> world" where
  "st_randomRange h mn mx w = (let (r, w') = st_rand h w in (mn + (mx - mn) * r, w'))"

definition st_pickTheme ::
  "string \<Rightarrow> nat \<Rightarrow> PromptHints option \<Rightarrow> world \<Rightarrow> ThemePreset option \<times> world" where
  "st_pickTheme p h hints w =
     (let explicit =
            (case (case hints of Some hs \<Rightarrow> preferredThemeId hs | None \<Rightarrow> None) of
               Some pid \<Rightarrow>
                 if pid \<noteq> [] then find (\<lambda>preset. theme_id preset = pid) THEME_PRESETS else None
             | None \<Rightarrow> None)
      in case explicit of
           Some preset \<Rightarrow> (Some preset, w)
         | None \<Rightarrow>
            (let normalized = toLowerCase p;
                 matched = find (\<lambda>preset. list_ex (\<lambda>keyword. str_includes normalized keyword)
                             (theme_keywords preset)) THEME_PRESETS
             in case matched of
                  Some preset \<Rightarrow> (Some preset, w)
                | None \<Rightarrow>
                    (let (r, w') = st_rand h w
                     in (js_index THEME_PRESETS \<lfloor>r * of_nat (length THEME_PRESETS)\<rfloor>, w'))))"

definition st_createTemplateId :: "string \<Rightarrow> nat \<Rightarrow> world \<Rightarrow> string \<times> world" where
  "st_createTemplateId pre h w =
     (let (r, w') = st_rand h w in (pre @ ''-'' @ int_toString (Math_round (r * 1000000)), w'))"

definition st_cricket_bat_buildMeshes ::
  "string list \<Rightarrow> string option \<Rightarrow> nat \<Rightarrow> world \<Rightarrow> MeshDescriptor list \<times> world" where
  "st_cricket_bat_buildMeshes palette accent h w0 =
     (let colors = (if length palette \<noteq> 0 then palette else TEMPLATE_DEFAULT_PALETTE);
          wood = (case js_index colors 0 of Some c \<Rightarrow> c | None \<Rightarrow> ''#d4b48c'');
          grip = (case js_index colors 1 of Some c \<Rightarrow> c | None \<Rightarrow> ''#171717'');
          sticker = (case accent of
                       Some a \<Rightarrow> a
                     | None \<Rightarrow> (case js_index colors 2 of Some c \<Rightarrow> c | None \<Rightarrow> ''#f97316''));
          (id1, w1) = st_createTemplateId ''bat-blade'' h w0;
          (id2, w2) = st_createTemplateId ''bat-handle'' h w1;
          (id3, w3) = st_createTemplateId ''bat-cap'' h w2
      in ([
        \<lparr> mesh_id = id1,
          name = ''Cricket-Blade'',
          geometry = BoxGeometry 0.45 2.2 0.32,
          material = \<lparr> color = Some wood, metalness = 0.08, roughness = 0.72,
            emissive = None, wireframe = Some False, useTexture = Some True \<rparr>,
          transform = \<lparr> position = (0, 0.4, 0),
            rotation = (- Math_PI * 0.02, 0, Math_PI * 0.05),
            scale = (1, 1, 1) \<rparr>,
          modifiers = Some \<lparr> noiseAmplitude = Some 0.015, noiseFrequency = None,
            noiseOffset = None, twistStrength = None, taperStrength = Some 0.3,
            squash = Some 0.12 \<rparr> \<rparr>,
        \<lparr> mesh_id = id2,
          name = ''Cricket-Handle'',
          geometry = CylinderGeometry 0.12 0.15 1.5 48 1 False,
          material = \<lparr> color = Some grip, metalness = 0.05, roughness = 0.45,
            emissive = None, wireframe = Some False, useTexture = Some False \<rparr>,
          transform = \<lparr> position = (0, 1.35, - 0.05),
            rotation = (Math_PI / 2, 0, 0),
            scale = (1, 1, 1) \<rparr>,
          modifiers = Some \<lparr> noiseAmplitude = Some 0.03, noiseFrequency = None,
            noiseOffset = None, twistStrength = Some 0.25, taperStrength = None,
            squash = None \<rparr> \<rparr>,
        \<lparr> mesh_id = id3,
          name = ''Bat-Logo-Panel'',
          geometry = BoxGeometry 0.4 0.9 0.05,
          material = \<lparr> color = Some sticker, metalness = 0.2, roughness = 0.4,
            emissive = accent, wireframe = Some False, useTexture = Some False \<rparr>,
          transform = \<lparr> position = (0, 0.2, 0.18),
            rotation = (0, 0, Math_PI * 0.05),
            scale = (1, 1, 1) \<rparr>,
          modifiers = Some \<lparr> noiseAmplitude = Some 0.01, noiseFrequency = None,
            noiseOffset = None, twistStrength = None, taperStrength = None,
            squash = None \<rparr> \<rparr> ], w3))"

definition st_SHAPE_TEMPLATES :: "st_ShapeTemplate list" where
  "st_SHAPE_TEMPLATES = [
     \<lparr> st_template_id = ''cricket-bat'',
       st_template_keywords = [''cricket bat'', ''bat''],
       st_template_environment = Some Studio,
       st_buildMeshes = st_cricket_bat_buildMeshes \<rparr> ]"

definition st_tryTemplateSpec ::
  "string \<Rightarrow> PromptHints \<Rightarrow> nat \<Rightarrow> world \<Rightarrow> ProceduralModelSpec option \<times> world" where
  "st_tryTemplateSpec p hints sd w =
     (let normalized = toLowerCase p
      in case find (\<lambda>shape. includesAny normalized (st_template_keywords shape))
                st_SHAPE_TEMPLATES of
           None \<Rightarrow> (None, w)
         | Some template \<Rightarrow>
            (let (h, w0) = st_createGenerator sd w;
                 palette = (case paletteOverride hints of
                              Some ov \<Rightarrow> if length ov \<noteq> 0 then ov else TEMPLATE_DEFAULT_PALETTE
                            | None \<Rightarrow> TEMPLATE_DEFAULT_PALETTE);
                 accent = (case hint_accentColor hints of
                             Some a \<Rightarrow> Some a
                           | None \<Rightarrow> js_index palette 0);
                 (ms, w1) = st_buildMeshes template palette accent h w0
             in (Some \<lparr> prompt = p,
                        seed = sd,
                        environment =
                          (case st_template_environment template of
                             Some e \<Rightarrow> e
                           | None \<Rightarrow> (case environmentHint hints of Some e \<Rightarrow> e | None \<Rightarrow> Studio)),
                        accentColor = accent,
                        meshes = ms \<rparr>, w1)))"

fun st_createGeometry :: "GeometryKind option \<Rightarrow> nat \<Rightarrow> world \<Rightarrow> GeometrySpec \<times> world" where
  "st_createGeometry (Some Sphere) h w0 =
     (let (radius, w1) = st_randomRange h 1.1 1.8 w0;
          (r2, w2) = st_rand h w1;
          (r3, w3) = st_rand h w2
      in (SphereGeometry radius (32 + \<lfloor>r2 * 16\<rfloor>) (32 + \<lfloor>r3 * 16\<rfloor>), w3))"
| "st_createGeometry (Some Box) h w0 =
     (let (width, w1) = st_randomRange h 1 2.2 w0;
          (height, w2) = st_randomRange h 1 1.6 w1;
          (depth, w3) = st_randomRange h 1 2 w2
      in (BoxGeometry width height depth, w3))"
| "st_createGeometry (Some Torus) h w0 =
     (let (radius, w1) = st_randomRange h 1.2 1.9 w0;
          (tube, w2) = st_randomRange h 0.2 0.5 w1;
          (r3, w3) = st_rand h w2;
          (r4, w4) = st_rand h w3
      in (TorusGeometry radius tube (16 + \<lfloor>r3 * 16\<rfloor>) (48 + \<lfloor>r4 * 32\<rfloor>) (Math_PI * 2), w4))"
| "st_createGeometry (Some Cylinder) h w0 =
     (let (radiusTop, w1) = st_randomRange h 0.5 1.2 w0;
          (radiusBottom, w2) = st_randomRange h 0.8 1.5 w1;
          (height, w3) = st_randomRange h 2 3.2 w2;
          (r4, w4) = st_rand h w3;
          (r5, w5) = st_rand h w4
      in (CylinderGeometry radiusTop radiusBottom height (32 + \<lfloor>r4 * 16\<rfloor>) (1 + \<lfloor>r5 * 3\<rfloor>) False,
          w5))"
| "st_createGeometry (Some Cone) h w0 =
     (let (radius, w1) = st_randomRange h 0.7 1.4 w0;
          (height, w2) = st_randomRange h 1.4 2.4 w1;
          (r3, w3) = st_rand h w2;
          (r4, w4) = st_rand h w3
      in (ConeGeometry radius height (32 + \<lfloor>r3 * 16\<rfloor>) (1 + \<lfloor>r4 * 2\<rfloor>), w4))"
| "st_createGeometry _ h w0 =
     (let (radius, w1) = st_randomRange h 1.2 1.7 w0;
          (r2, w2) = st_rand h w1
      in (IcosahedronGeometry radius \<lfloor>r2 * 2\<rfloor>, w2))"

definition st_createTransform :: "nat \<Rightarrow> nat \<Rightarrow> world \<Rightarrow> MeshTransform \<times> world" where
  "st_createTransform h index w0 =
     (if index = 0
      then (\<lparr> position = (0, 0, 0), rotation = (0, 0, 0), scale = (1, 1, 1) \<rparr>, w0)
      else
        (let (px, w1) = st_randomRange h (- 1.2) 1.2 w0;
             (py, w2) = st_randomRange h (- 0.2) 1.2 w1;
             (pz, w3) = st_randomRange h (- 1.1) 1.1 w2;
             (rx, w4) = st_randomRange h (- 0.4) 0.4 w3;
             (ry, w5) = st_randomRange h 0 (Math_PI * 2) w4;
             (rz, w6) = st_randomRange h (- 0.4) 0.4 w5;
             (sx, w7) = st_randomRange h 0.45 0.9 w6;
             (sy, w8) = st_randomRange h 0.45 0.9 w7;
             (sz, w9) = st_randomRange h 0.45 0.9 w8
         in (\<lparr> position = (px, py, pz), rotation = (rx, ry, rz), scale = (sx, sy, sz) \<rparr>, w9)))"

definition st_createMeshName ::
  "string \<Rightarrow> GeometryKind option \<Rightarrow> nat \<Rightarrow> nat \<Rightarrow> world \<Rightarrow> string \<times> world" where
  "st_createMeshName p geo h index w =
     (let primaryDescriptor =
            (case find (\<lambda>x. x \<noteq> []) (split_on CHR '' '' p) of
               Some x \<Rightarrow> x | None \<Rightarrow> ''Artifact'');
          base = (case geo of Some k \<Rightarrow> geometryTitles k | None \<Rightarrow> ''Element'');
          (r, w') = st_rand h w;
          pre = (case js_index vectorNameSeeds \<lfloor>r * of_nat (length vectorNameSeeds)\<rfloor> of
                   Some x \<Rightarrow> x | None \<Rightarrow> ''undefined'')
      in (pre @ ''-'' @ base @ ''-'' @ (if index = 0 then ''Prime'' else primaryDescriptor), w'))"

definition st_geometryKind ::
  "ThemePreset \<Rightarrow> DescriptorContext \<Rightarrow> nat \<Rightarrow> nat \<Rightarrow> world \<Rightarrow> GeometryKind option \<times> world" where
  "st_geometryKind theme context index h w0 =
     (let pool = geometryPool theme context index;
          (r1, w1) = st_rand h w0
      in case js_index pool \<lfloor>r1 * of_nat (length pool)\<rfloor> of
           Some k \<Rightarrow> (Some k, w1)
         | None \<Rightarrow>
            (let (r2, w2) = st_rand h w1
             in (js_index (secondaryGeometries theme)
                   \<lfloor>r2 * of_nat (length (secondaryGeometries theme))\<rfloor>, w2)))"

definition st_createMeshDescriptor ::
  "ThemePreset \<Rightarrow> string \<Rightarrow> nat \<Rightarrow> nat \<Rightarrow> DescriptorContext \<Rightarrow> world \<Rightarrow> MeshDescriptor \<times> world" where
  "st_createMeshDescriptor theme p h index context w0 =
     (let palette = (if length (ctx_palette context) \<noteq> 0 then ctx_palette context
                     else theme_palette theme);
          (kind, w2) = st_geometryKind theme context index h w0;
          (geo, w3) = st_createGeometry kind h w2;
          (trans, w4) = st_createTransform h index w3;
          (paletteIndex, w5) =
            (if index = 0 \<or> length palette = 1
             then (clamp 0 0 (max 0 (int (length palette) - 1)), w4)
             else (let (r, w) = st_rand h w4
                   in (clamp (1 + \<lfloor>r * of_int (max 1 (int (length palette) - 1))\<rfloor>) 0
                         (max 0 (int (length palette) - 1)), w)));
          detailMultiplier =
            (if ctx_detailBias context = Organic then 1.25
             else if ctx_detailBias context = Mechanical then 0.65 else 1);
          (j1, w6) = st_randomRange h 0.9 1.4 w5;
          (j2, w7) = st_randomRange h 0.8 1.2 w6;
          (r3, w8) = st_rand h w7;
          (j4, w9) = st_randomRange h 0.7 1.3 w8;
          (j5, w10) = st_randomRange h 0.5 1.2 w9;
          (j6, w11) = st_randomRange h 0.8 1.2 w10;
          mods = \<lparr> noiseAmplitude = Some (base_noiseAmplitude (theme_modifiers theme) * j1 * detailMultiplier),
                   noiseFrequency = Some (base_noiseFrequency (theme_modifiers theme) * j2),
                   noiseOffset = Some (r3 * Math_PI * 2),
                   twistStrength = Some (base_twistStrength (theme_modifiers theme) * j4 * detailMultiplier),
                   taperStrength = Some (base_taperStrength (theme_modifiers theme) * j5 * detailMultiplier),
                   squash = Some (base_squash (theme_modifiers theme) * j6) \<rparr>;
          mods' =
            (if ctx_detailBias context = Mechanical
             then mods \<lparr> noiseAmplitude := Some ((case noiseAmplitude mods of Some x \<Rightarrow> x | None \<Rightarrow> 0) * 0.8),
                         taperStrength := Some ((case taperStrength mods of Some x \<Rightarrow> x | None \<Rightarrow> 0) * 0.7),
                         squash := Some ((case squash mods of Some x \<Rightarrow> x | None \<Rightarrow> 0) * 0.6) \<rparr>
             else mods);
          metalnessBias =
            (if ctx_detailBias context = Organic then - 0.2
             else if ctx_detailBias context = Mechanical then 0.15 else 0);
          roughnessBias =
            (if ctx_detailBias context = Organic then 0.2
             else if ctx_detailBias context = Mechanical then - 0.1 else 0);
          (wire, w12) =
            (if index > 0 then (let (r, w) = st_rand h w11 in (r > 0.85, w)) else (False, w11));
          mat = \<lparr> color = (case js_index palette paletteIndex of
                            Some c \<Rightarrow> Some c | None \<Rightarrow> js_index (theme_palette theme) 0),
                  metalness = clamp (base_metalness theme + metalnessBias) 0 1,
                  roughness = clamp (base_roughness theme + roughnessBias) 0 1,
                  emissive = (if index = 0 then Some (ctx_accentColor context) else None),
                  wireframe = Some wire,
                  useTexture = Some (index = 0) \<rparr>;
          (r13, w13) = st_rand h w12;
          (nm, w14) = st_createMeshName p kind h index w13
      in (\<lparr> mesh_id = kind_toString kind @ ''-'' @ int_toString (int index) @ ''-''
                        @ int_toString (Math_round (r13 * 1000000)),
            name = nm,
            geometry = geo,
            material = mat,
            transform = trans,
            modifiers = Some mods' \<rparr>, w14))"

function st_meshes_loop ::
  "ThemePreset \<Rightarrow> string \<Rightarrow> DescriptorContext \<Rightarrow> int \<Rightarrow> nat \<Rightarrow> nat \<Rightarrow> world
   \<Rightarrow> MeshDescriptor list \<times> world" where
  "st_meshes_loop theme p context n i h w =
     (if int i < n
      then (case st_createMeshDescriptor theme p h i context w of
              (m, w') \<Rightarrow>
                (case st_meshes_loop theme p context n (Suc i) h w' of
                   (ms, w'') \<Rightarrow> (m # ms, w'')))
      else ([], w))"
  by pat_completeness auto
termination
  by (relation "measure (\<lambda>(theme, p, context, n, i, h, w). nat (n - int i))") auto

declare st_meshes_loop.simps [simp del]

definition st_meshCount :: "PromptHints \<Rightarrow> nat \<Rightarrow> world \<Rightarrow> int \<times> world" where
  "st_meshCount hints h w =
     (case meshTarget hints of
        Some t \<Rightarrow> (t, w)
      | None \<Rightarrow> (let (r, w') = st_rand h w in (2 + \<lfloor>r * 3\<rfloor>, w')))"

definition st_generateModelSpec ::
  "(string \<Rightarrow> 32 word) \<Rightarrow> string option \<Rightarrow> world \<Rightarrow> (error + ProceduralModelSpec) \<times> world" where
  "st_generateModelSpec sha256 p w =
     (let fp = fallbackPrompt p;
          sd = createSeed sha256 fp;
          (h, w0) = st_createGenerator sd w;
          hints = analyzePromptHints fp
      in case st_tryTemplateSpec fp hints sd w0 of
           (Some templateSpec, w1) \<Rightarrow> (Inr templateSpec, w1)
         | (None, w1) \<Rightarrow>
            (case st_pickTheme fp h (Some hints) w1 of
               (None, w2) \<Rightarrow> (Inl TypeError, w2)
             | (Some theme, w2) \<Rightarrow>
                (let (palette, accent) = resolvePalette theme hints;
                     env = (case environmentHint hints of
                              Some e \<Rightarrow> e | None \<Rightarrow> theme_environment theme);
                     (count, w3) = st_meshCount hints h w2;
                     clampedMeshCount = clamp count 1 4;
                     context = \<lparr> ctx_palette = palette,
                                 ctx_accentColor = accent,
                                 ctx_primaryGeometry = geometryPreference hints,
                                 ctx_detailBias = detailBias hints \<rparr>;
                     (ms, w4) = st_meshes_loop theme fp context clampedMeshCount 0 h w3
                 in (Inr \<lparr> prompt = fp,
                           seed = sd,
                           environment = env,
                           accentColor = Some accent,
                           meshes = ms \<rparr>, w4))))"

definition empty_world :: world where
  "empty_world = \<lparr> next_handle = 0, cell = (\<lambda>h. 0) \<rparr>"

subsection \<open>Predicates of the properties\<close>

text \<open>
  A generator state is sound when it is not a multiple of the modulus: the states reached
  from it then stay between 1 and 2147483646.
\<close>

definition rng_ok :: "rng \<Rightarrow> bool" where
  "rng_ok s = (s mod 2147483647 \<noteq> 0)"

text \<open>The ranges the specification declares for the parameters of each geometry kind.\<close>

fun in_declared_range :: "GeometrySpec \<Rightarrow> bool" where
  "in_declared_range (SphereGeometry radius ws hs) =
     (1.1 \<le> radius \<and> radius \<le> 1.8 \<and> 32 \<le> ws \<and> ws < 48 \<and> 32 \<le> hs \<and> hs < 48)"
| "in_declared_range (BoxGeometry w h d) =
     (1 \<le> w \<and> w \<le> 2.2 \<and> 1 \<le> h \<and> h \<le> 1.6 \<and> 1 \<le> d \<and> d \<le> 2)"
| "in_declared_range (TorusGeometry radius tube rs ts arc) =
     (1.2 \<le> radius \<and> radius \<le> 1.9 \<and> 0.2 \<le> tube \<and> tube \<le> 0.5)"
| "in_declared_range (CylinderGeometry rt rb h rs hs oe) = (2 \<le> h \<and> h \<le> 3.2)"
| "in_declared_range (ConeGeometry radius h rs hs) = (1.4 \<le> h \<and> h \<le> 2.4)"
| "in_declared_range (IcosahedronGeometry radius detail) =
     (1.2 \<le> radius \<and> radius \<le> 1.7 \<and> (detail = 0 \<or> detail = 1))"

text \<open>The named-template branch of \<open>generateModelSpec\<close>: \<open>if (templateSpec) return templateSpec\<close>.\<close>

definition template_path_taken :: "(string \<Rightarrow> 32 word) \<Rightarrow> string option \<Rightarrow> bool" where
  "template_path_taken sha256 p =
     (tryTemplateSpec (fallbackPrompt p) (analyzePromptHints (fallbackPrompt p))
        (createSeed sha256 (fallbackPrompt p)) \<noteq> None)"

text \<open>
  The blueprint that \<open>generateModelSpec\<close> returns on the generic path, for the theme and
  the generator state that \<open>pickTheme\<close> returned.
\<close>

definition generic_blueprint ::
  "string \<Rightarrow> nat \<Rightarrow> PromptHints \<Rightarrow> ThemePreset \<Rightarrow> rng \<Rightarrow> ProceduralModelSpec" where
  "generic_blueprint fp sd hints theme s1 =
     \<lparr> prompt = fp,
       seed = sd,
       environment = (case environmentHint hints of
                        Some e \<Rightarrow> e | None \<Rightarrow> theme_environment theme),
       accentColor = Some (snd (resolvePalette theme hints)),
       meshes = meshes_loop theme fp
                  \<lparr> ctx_palette = fst (resolvePalette theme hints),
                    ctx_accentColor = snd (resolvePalette theme hints),
                    ctx_primaryGeometry = geometryPreference hints,
                    ctx_detailBias = detailBias hints \<rparr>
                  (clamp (fst (meshCount hints s1)) 1 4) 0 (snd (meshCount hints s1)) \<rparr>"

text \<open>
  The palette and the accent colour that \<open>tryTemplateSpec\<close> computes from the hints, and the
  blueprint it returns for the cricket-bat template.
\<close>

definition template_palette :: "PromptHints \<Rightarrow> string list" where
  "template_palette hints =
     (case paletteOverride hints of
        Some ov \<Rightarrow> if length ov \<noteq> 0 then ov else TEMPLATE_DEFAULT_PALETTE
      | None \<Rightarrow> TEMPLATE_DEFAULT_PALETTE)"

definition template_accent :: "PromptHints \<Rightarrow> string option" where
  "template_accent hints =
     (case hint_accentColor hints of
        Some a \<Rightarrow> Some a
      | None \<Rightarrow> js_index (template_palette hints) 0)"

definition cricket_bat_blueprint :: "string \<Rightarrow> PromptHints \<Rightarrow> nat \<Rightarrow> ProceduralModelSpec" where
  "cricket_bat_blueprint p hints sd =
     \<lparr> prompt = p, seed = sd, environment = Studio, accentColor = template_accent hints,
       meshes = fst (cricket_bat_buildMeshes (template_palette hints) (template_accent hints)
                       (createGenerator sd)) \<rparr>"

text \<open>
  The SHA-256 digests of the prompts at which the theorems below are evaluated, as the
  platform computes them: the first eight hexadecimal digits are, in the order of the
  table, d596ba99, a9c43be9, dc2805dc, 7eb8058e, b9bf7041, 2ce57fe9, 18d63be1, 00000000,
  f6defa3e and 00000000. Any other prompt is given 0 here; no theorem evaluates one.
\<close>

definition sha256_sample :: "string \<Rightarrow> 32 word" where
  "sha256_sample p =
     (case map_of [
       (''robot fleet'', 3583425177),
       (''dragon'', 2848209897),
       (''robot in a forest'', 3693610460),
       (''Cricket Bat'', 2125989262),
       (''abstract artifact'', 3116331073),
       ('' robot'', 753237993),
       (''robot'', 416693217),
       (''robot 2247111167'', 0),
       (''a red robot drone'', 4141808190),
       (''vase 2911017926'', 0) ] p of
        Some w \<Rightarrow> w
      | None \<Rightarrow> 0)"

section \<open>Properties\<close>

subsection \<open>The generator state\<close>

lemma lcg_inverse: "(1407677000 * 16807) mod 2147483647 = (1::nat)"
  by simp

lemma lcg_step_nonzero:
  assumes "s mod 2147483647 \<noteq> (0::nat)"
  shows "(s * 16807) mod 2147483647 \<noteq> 0"
proof
  assume z: "(s * 16807) mod 2147483647 = 0"
  have "s mod 2147483647 = (s * ((1407677000 * 16807) mod 2147483647)) mod 2147483647"
    by (simp only: lcg_inverse mult_1_right)
  also have "\<dots> = (s * (1407677000 * 16807)) mod 2147483647"
    by (simp only: mod_mult_right_eq)
  also have "\<dots> = (((s * 16807) mod 2147483647) * 1407677000) mod 2147483647"
    by (simp only: mod_mult_left_eq mult.assoc mult.commute[of 1407677000 16807])
  also have "\<dots> = 0" by (simp add: z)
  finally show False using assms by simp
qed

lemma rand_ok:
  assumes "rng_ok s" and "rand s = (r, s')"
  shows "0 \<le> r" and "r < 1" and "rng_ok s'"
proof -
  have s': "s' = (s * 16807) mod 2147483647" and r: "r = (of_nat s' - 1) / 2147483646"
    using assms(2) by (auto simp: rand_def Let_def)
  have nz: "s' \<noteq> 0" using lcg_step_nonzero assms(1) s' by (simp add: rng_ok_def)
  have lt: "s' < 2147483647" using s' by simp
  show "rng_ok s'" using nz lt by (simp add: rng_ok_def)
  have "1 \<le> s'" using nz by simp
  then have "(1::rat) \<le> of_nat s'" by (metis of_nat_1 of_nat_le_iff)
  then show "0 \<le> r" by (simp add: r)
  have "(of_nat s' :: rat) < 2147483647" using lt
    by (metis of_nat_less_iff of_nat_numeral)
  then show "r < 1" by (simp add: r)
qed

lemma randomRange_ok:
  assumes "rng_ok s" and "randomRange s mn mx = (x, s')" and "mn \<le> mx"
  shows "mn \<le> x \<and> x \<le> mx \<and> rng_ok s'"
proof -
  obtain r where r: "rand s = (r, s')" and x: "x = mn + (mx - mn) * r"
    using assms(2) by (auto simp: randomRange_def split: prod.splits)
  have b: "0 \<le> r" "r < 1" and ok: "rng_ok s'" using rand_ok[OF assms(1) r] by auto
  have d: "0 \<le> mx - mn" using assms(3) by simp
  have "0 \<le> (mx - mn) * r" using d b(1) by simp
  moreover have "(mx - mn) * r \<le> (mx - mn) * 1"
    using d b(2) by (intro mult_left_mono) auto
  ultimately show ?thesis using ok x by simp
qed

lemma floor_scaled:
  fixes r :: rat
  assumes "0 \<le> r" and "r < 1" and "0 < n"
  shows "0 \<le> \<lfloor>r * of_nat n\<rfloor> \<and> \<lfloor>r * of_nat n\<rfloor> < int n"
proof -
  have "0 \<le> r * of_nat n" using assms by simp
  moreover have "r * of_nat n < of_nat n" using assms by simp
  ultimately show ?thesis by (simp add: floor_less_iff)
qed

lemma js_index_floor:
  fixes r :: rat
  assumes "0 \<le> r" and "r < 1" and "xs \<noteq> []"
  shows "\<exists>k. js_index xs \<lfloor>r * of_nat (length xs)\<rfloor> = Some k \<and> k \<in> set xs"
proof -
  have "0 < length xs" using assms(3) by simp
  from floor_scaled[OF assms(1,2) this]
  have b: "0 \<le> \<lfloor>r * of_nat (length xs)\<rfloor>" "\<lfloor>r * of_nat (length xs)\<rfloor> < int (length xs)"
    by auto
  then have "nat \<lfloor>r * of_nat (length xs)\<rfloor> < length xs" by linarith
  then have m: "xs ! nat \<lfloor>r * of_nat (length xs)\<rfloor> \<in> set xs" by (rule nth_mem)
  have "js_index xs \<lfloor>r * of_nat (length xs)\<rfloor> = Some (xs ! nat \<lfloor>r * of_nat (length xs)\<rfloor>)"
    unfolding js_index_def using b by (simp only: if_True simp_thms)
  with m show ?thesis by blast
qed

lemma rand_obtain:
  assumes "rng_ok s"
  obtains r s' where "rand s = (r, s')" and "0 \<le> r" and "r < 1" and "rng_ok s'"
  using rand_ok[OF assms] by (cases "rand s") blast

lemma randomRange_obtain:
  assumes "rng_ok s" and "mn \<le> mx"
  obtains x s' where "randomRange s mn mx = (x, s')" and "mn \<le> x" and "x \<le> mx" and "rng_ok s'"
  using randomRange_ok[OF assms(1) _ assms(2)] by (cases "randomRange s mn mx") blast

subsection \<open>Geometry parameters\<close>

lemma floor16:
  fixes r :: rat assumes "0 \<le> r" and "r < 1"
  shows "0 \<le> \<lfloor>r * 16\<rfloor>" and "\<lfloor>r * 16\<rfloor> < 16"
  using assms by (simp_all add: floor_less_iff)

lemma floor2:
  fixes r :: rat assumes "0 \<le> r" and "r < 1"
  shows "\<lfloor>r * 2\<rfloor> = 0 \<or> \<lfloor>r * 2\<rfloor> = 1"
proof -
  have "0 \<le> \<lfloor>r * 2\<rfloor>" and "\<lfloor>r * 2\<rfloor> < 2"
    using assms by (simp_all add: floor_less_iff)
  then show ?thesis by linarith
qed

lemma createGeometry_Sphere_ok:
  assumes "rng_ok s" and "createGeometry (Some Sphere) s = (g, s')"
  shows "in_declared_range g \<and> rng_ok s'"
proof -
  from assms(1) obtain radius s1 where 1: "randomRange s 1.1 1.8 = (radius, s1)"
    and b1: "1.1 \<le> radius" "radius \<le> 1.8" and ok1: "rng_ok s1"
    by (rule randomRange_obtain[where mn = "1.1" and mx = "1.8"]) simp_all
  from ok1 obtain r2 s2 where 2: "rand s1 = (r2, s2)" and b2: "0 \<le> r2" "r2 < 1" and ok2: "rng_ok s2"
    by (rule rand_obtain)
  from ok2 obtain r3 s3 where 3: "rand s2 = (r3, s3)" and b3: "0 \<le> r3" "r3 < 1" and ok3: "rng_ok s3"
    by (rule rand_obtain)
  have "g = SphereGeometry radius (32 + \<lfloor>r2 * 16\<rfloor>) (32 + \<lfloor>r3 * 16\<rfloor>)" and "s' = s3"
    using assms(2) 1 2 3 by simp_all
  then show ?thesis
    using b1 ok3 floor16[OF b2] floor16[OF b3] by simp
qed

lemma createGeometry_Box_ok:
  assumes "rng_ok s" and "createGeometry (Some Box) s = (g, s')"
  shows "in_declared_range g \<and> rng_ok s'"
proof -
  from assms(1) obtain w s1 where 1: "randomRange s 1 2.2 = (w, s1)"
    and b1: "1 \<le> w" "w \<le> 2.2" and ok1: "rng_ok s1"
    by (rule randomRange_obtain[where mn = 1 and mx = "2.2"]) simp_all
  from ok1 obtain h s2 where 2: "randomRange s1 1 1.6 = (h, s2)"
    and b2: "1 \<le> h" "h \<le> 1.6" and ok2: "rng_ok s2"
    by (rule randomRange_obtain[where mn = 1 and mx = "1.6"]) simp_all
  from ok2 obtain d s3 where 3: "randomRange s2 1 2 = (d, s3)"
    and b3: "1 \<le> d" "d \<le> 2" and ok3: "rng_ok s3"
    by (rule randomRange_obtain[where mn = 1 and mx = 2]) simp_all
  have "g = BoxGeometry w h d" and "s' = s3"
    using assms(2) 1 2 3 by simp_all
  then show ?thesis using b1 b2 b3 ok3 by simp
qed

lemma createGeometry_Torus_ok:
  assumes "rng_ok s" and "createGeometry (Some Torus) s = (g, s')"
  shows "in_declared_range g \<and> rng_ok s'"
proof -
  from assms(1) obtain radius s1 where 1: "randomRange s 1.2 1.9 = (radius, s1)"
    and b1: "1.2 \<le> radius" "radius \<le> 1.9" and ok1: "rng_ok s1"
    by (rule randomRange_obtain[where mn = "1.2" and mx = "1.9"]) simp_all
  from ok1 obtain tube s2 where 2: "randomRange s1 0.2 0.5 = (tube, s2)"
    and b2: "0.2 \<le> tube" "tube \<le> 0.5" and ok2: "rng_ok s2"
    by (rule randomRange_obtain[where mn = "0.2" and mx = "0.5"]) simp_all
  from ok2 obtain r3 s3 where 3: "rand s2 = (r3, s3)" and ok3: "rng_ok s3"
    by (rule rand_obtain)
  from ok3 obtain r4 s4 where 4: "rand s3 = (r4, s4)" and ok4: "rng_ok s4"
    by (rule rand_obtain)
  have "g = TorusGeometry radius tube (16 + \<lfloor>r3 * 16\<rfloor>) (48 + \<lfloor>r4 * 32\<rfloor>) (Math_PI * 2)"
    and "s' = s4"
    using assms(2) 1 2 3 4 by simp_all
  then show ?thesis using b1 b2 ok4 by simp
qed

lemma createGeometry_Cylinder_ok:
  assumes "rng_ok s" and "createGeometry (Some Cylinder) s = (g, s')"
  shows "in_declared_range g \<and> rng_ok s'"
proof -
  from assms(1) obtain rt s1 where 1: "randomRange s 0.5 1.2 = (rt, s1)" and ok1: "rng_ok s1"
    by (rule randomRange_obtain[where mn = "0.5" and mx = "1.2"]) simp_all
  from ok1 obtain rb s2 where 2: "randomRange s1 0.8 1.5 = (rb, s2)" and ok2: "rng_ok s2"
    by (rule randomRange_obtain[where mn = "0.8" and mx = "1.5"]) simp_all
  from ok2 obtain h s3 where 3: "randomRange s2 2 3.2 = (h, s3)"
    and b3: "2 \<le> h" "h \<le> 3.2" and ok3: "rng_ok s3"
    by (rule randomRange_obtain[where mn = 2 and mx = "3.2"]) simp_all
  from ok3 obtain r4 s4 where 4: "rand s3 = (r4, s4)" and ok4: "rng_ok s4"
    by (rule rand_obtain)
  from ok4 obtain r5 s5 where 5: "rand s4 = (r5, s5)" and ok5: "rng_ok s5"
    by (rule rand_obtain)
  have "g = CylinderGeometry rt rb h (32 + \<lfloor>r4 * 16\<rfloor>) (1 + \<lfloor>r5 * 3\<rfloor>) False" and "s' = s5"
    using assms(2) 1 2 3 4 5 by simp_all
  then show ?thesis using b3 ok5 by simp
qed

lemma createGeometry_Cone_ok:
  assumes "rng_ok s" and "createGeometry (Some Cone) s = (g, s')"
  shows "in_declared_range g \<and> rng_ok s'"
proof -
  from assms(1) obtain radius s1 where 1: "randomRange s 0.7 1.4 = (radius, s1)" and ok1: "rng_ok s1"
    by (rule randomRange_obtain[where mn = "0.7" and mx = "1.4"]) simp_all
  from ok1 obtain h s2 where 2: "randomRange s1 1.4 2.4 = (h, s2)"
    and b2: "1.4 \<le> h" "h \<le> 2.4" and ok2: "rng_ok s2"
    by (rule randomRange_obtain[where mn = "1.4" and mx = "2.4"]) simp_all
  from ok2 obtain r3 s3 where 3: "rand s2 = (r3, s3)" and ok3: "rng_ok s3"
    by (rule rand_obtain)
  from ok3 obtain r4 s4 where 4: "rand s3 = (r4, s4)" and ok4: "rng_ok s4"
    by (rule rand_obtain)
  have "g = ConeGeometry radius h (32 + \<lfloor>r3 * 16\<rfloor>) (1 + \<lfloor>r4 * 2\<rfloor>)" and "s' = s4"
    using assms(2) 1 2 3 4 by simp_all
  then show ?thesis using b2 ok4 by simp
qed

lemma createGeometry_default_ok:
  assumes "rng_ok s" and "createGeometry k s = (g, s')" and "k = None \<or> k = Some Icosahedron"
  shows "in_declared_range g \<and> rng_ok s'"
proof -
  from assms(1) obtain radius s1 where 1: "randomRange s 1.2 1.7 = (radius, s1)"
    and b1: "1.2 \<le> radius" "radius \<le> 1.7" and ok1: "rng_ok s1"
    by (rule randomRange_obtain[where mn = "1.2" and mx = "1.7"]) simp_all
  from ok1 obtain r2 s2 where 2: "rand s1 = (r2, s2)" and b2: "0 \<le> r2" "r2 < 1" and ok2: "rng_ok s2"
    by (rule rand_obtain)
  have "g = IcosahedronGeometry radius \<lfloor>r2 * 2\<rfloor>" and "s' = s2"
    using assms(2,3) 1 2 by auto
  then show ?thesis using b1 ok2 floor2[OF b2] by simp
qed

lemma createGeometry_ok:
  assumes "rng_ok s" and "createGeometry k s = (g, s')"
  shows "in_declared_range g \<and> rng_ok s'"
proof (cases k)
  case None
  then show ?thesis using createGeometry_default_ok[OF assms] by simp
next
  case (Some a)
  then show ?thesis
    using assms createGeometry_Sphere_ok createGeometry_Box_ok createGeometry_Torus_ok
      createGeometry_Cylinder_ok createGeometry_Cone_ok createGeometry_default_ok
    by (cases a) blast+
qed

subsection \<open>One mesh\<close>

lemma rng_ok_snd_rand: "rng_ok s \<Longrightarrow> rng_ok (snd (rand s))"
  using rand_ok(3)[of s "fst (rand s)" "snd (rand s)"] by simp

lemma rng_ok_snd_randomRange: "rng_ok s \<Longrightarrow> rng_ok (snd (randomRange s mn mx))"
  by (simp add: randomRange_def case_prod_beta rng_ok_snd_rand)

lemma createTransform_ok: "rng_ok s \<Longrightarrow> rng_ok (snd (createTransform s i))"
  by (simp add: createTransform_def case_prod_beta rng_ok_snd_randomRange)

lemma createTransform_primary:
  "fst (createTransform s 0) = \<lparr> position = (0, 0, 0), rotation = (0, 0, 0), scale = (1, 1, 1) \<rparr>"
  by (simp add: createTransform_def)

lemma createMeshName_ok: "rng_ok s \<Longrightarrow> rng_ok (snd (createMeshName p k s i))"
  by (simp add: createMeshName_def Let_def case_prod_beta rng_ok_snd_rand)

lemma createGeometry_ok_snd: "rng_ok s \<Longrightarrow> rng_ok (snd (createGeometry k s))"
  using createGeometry_ok[of s k "fst (createGeometry k s)" "snd (createGeometry k s)"] by simp

lemma createGeometry_ok_fst: "rng_ok s \<Longrightarrow> in_declared_range (fst (createGeometry k s))"
  using createGeometry_ok[of s k "fst (createGeometry k s)" "snd (createGeometry k s)"] by simp

lemma primaryCandidates_nonempty: "primaryCandidates theme context \<noteq> []"
  by (simp add: primaryCandidates_def)

lemma secondaryCandidates_nonempty:
  "secondaryGeometries theme \<noteq> [] \<Longrightarrow> secondaryCandidates theme context \<noteq> []"
  by (simp add: secondaryCandidates_def)

lemma catalog_secondaries:
  "theme \<in> set THEME_PRESETS \<Longrightarrow> length (secondaryGeometries theme) = 3"
  by (auto simp: THEME_PRESETS_def)

lemma geometryPool_nonempty:
  assumes "theme \<in> set THEME_PRESETS"
  shows "geometryPool theme ctx i \<noteq> []"
proof -
  have "length (secondaryGeometries theme) = 3" using assms by (rule catalog_secondaries)
  then have "secondaryGeometries theme \<noteq> []" by auto
  then have "secondaryCandidates theme ctx \<noteq> []" by (rule secondaryCandidates_nonempty)
  then show ?thesis by (simp add: geometryPool_def primaryCandidates_nonempty)
qed

lemma geometryKind_ok:
  assumes "rng_ok s0" and "geometryPool theme context i \<noteq> []"
  shows "\<exists>k. geometryKind theme context i s0 = (Some k, snd (rand s0))
             \<and> k \<in> set (geometryPool theme context i)"
proof -
  from assms(1) obtain r1 s1 where 1: "rand s0 = (r1, s1)" and b: "0 \<le> r1" "r1 < 1"
    by (rule rand_obtain)
  from js_index_floor[OF b assms(2)] obtain k where
    k: "js_index (geometryPool theme context i)
          \<lfloor>r1 * of_nat (length (geometryPool theme context i))\<rfloor> = Some k"
    and m: "k \<in> set (geometryPool theme context i)" by blast
  have "geometryKind theme context i s0 = (Some k, s1)"
    by (simp add: geometryKind_def Let_def 1 k)
  then show ?thesis using m 1 by simp
qed

lemma geometryKind_ok_snd:
  "rng_ok s0 \<Longrightarrow> geometryPool theme context i \<noteq> [] \<Longrightarrow>
     rng_ok (snd (geometryKind theme context i s0))"
  using geometryKind_ok[of s0 theme "context" i] by (auto simp: rng_ok_snd_rand)

lemma cmd_geometry:
  "geometry (fst (createMeshDescriptor theme p s0 i context)) =
     fst (createGeometry (fst (geometryKind theme context i s0))
            (snd (geometryKind theme context i s0)))"
  by (simp add: createMeshDescriptor_def Let_def case_prod_beta)

lemma cmd_transform:
  "transform (fst (createMeshDescriptor theme p s0 i context)) =
     fst (createTransform (snd (createGeometry (fst (geometryKind theme context i s0))
            (snd (geometryKind theme context i s0)))) i)"
  by (simp add: createMeshDescriptor_def Let_def case_prod_beta)

lemma cmd_material:
  "metalness (material (fst (createMeshDescriptor theme p s0 i context))) =
     clamp (base_metalness theme +
       (if ctx_detailBias context = Organic then - 0.2
        else if ctx_detailBias context = Mechanical then 0.15 else 0)) 0 1"
  "roughness (material (fst (createMeshDescriptor theme p s0 i context))) =
     clamp (base_roughness theme +
       (if ctx_detailBias context = Organic then 0.2
        else if ctx_detailBias context = Mechanical then - 0.1 else 0)) 0 1"
  by (simp_all add: createMeshDescriptor_def Let_def case_prod_beta)

lemma cmd_rng_ok:
  assumes "rng_ok s0" and "geometryPool theme ctx i \<noteq> []"
  shows "rng_ok (snd (createMeshDescriptor theme p s0 i ctx))"
proof (cases "i = 0")
  case True
  then show ?thesis using assms
    by (simp add: createMeshDescriptor_def Let_def case_prod_beta rng_ok_snd_rand
      rng_ok_snd_randomRange createTransform_ok createMeshName_ok createGeometry_ok_snd
      geometryKind_ok_snd)
next
  case False
  then show ?thesis using assms
    by (simp add: createMeshDescriptor_def Let_def case_prod_beta rng_ok_snd_rand
      rng_ok_snd_randomRange createTransform_ok createMeshName_ok createGeometry_ok_snd
      geometryKind_ok_snd)
qed

lemma cmd_in_range:
  assumes "rng_ok s0" and "geometryPool theme ctx i \<noteq> []"
  shows "in_declared_range (geometry (fst (createMeshDescriptor theme p s0 i ctx)))"
  using assms by (simp add: cmd_geometry createGeometry_ok_fst geometryKind_ok_snd)

lemma clamp_unit:
  fixes x :: rat
  shows "0 \<le> clamp x 0 1 \<and> clamp x 0 1 \<le> 1"
  by (simp add: clamp_def)

lemma cmd_transform_primary:
  "transform (fst (createMeshDescriptor theme p s0 0 ctx)) =
     \<lparr> position = (0, 0, 0), rotation = (0, 0, 0), scale = (1, 1, 1) \<rparr>"
  by (simp only: cmd_transform createTransform_primary)

subsection \<open>Strings, templates and the loop\<close>


lemma tryTemplateSpec_None_iff:
  "tryTemplateSpec p hints sd = None \<longleftrightarrow> \<not> includesAny (toLowerCase p) [''cricket bat'', ''bat'']"
  by (simp add: tryTemplateSpec_def SHAPE_TEMPLATES_def Let_def)

lemma meshes_loop_length: "length (meshes_loop theme p ctx n i s) = nat (n - int i)"
proof (induction theme p ctx n i s rule: meshes_loop.induct)
  case (1 theme p ctx n i s)
  show ?case
  proof (cases "int i < n")
    case True
    obtain m s' where c: "createMeshDescriptor theme p s i ctx = (m, s')"
      by (cases "createMeshDescriptor theme p s i ctx")
    have "length (meshes_loop theme p ctx n (Suc i) s') = nat (n - int (Suc i))"
      using "1.IH"[OF True c[symmetric]] .
    then show ?thesis using True c by (simp add: meshes_loop.simps[of theme p ctx n i s])
  next
    case False
    then show ?thesis by (simp add: meshes_loop.simps[of theme p ctx n i s])
  qed
qed

lemma meshes_loop_all:
  assumes "\<And>s j. I s \<Longrightarrow> Q (fst (createMeshDescriptor theme p s j ctx))
                    \<and> I (snd (createMeshDescriptor theme p s j ctx))"
    and "I s"
  shows "\<forall>m \<in> set (meshes_loop theme p ctx n i s). Q m"
  using assms
proof (induction theme p ctx n i s rule: meshes_loop.induct)
  case (1 theme p ctx n i s)
  note step = "1.prems"(1)
  show ?case
  proof (cases "int i < n")
    case True
    obtain m s' where c: "createMeshDescriptor theme p s i ctx = (m, s')"
      by (cases "createMeshDescriptor theme p s i ctx")
    have "Q (fst (m, s')) \<and> I (snd (m, s'))" using step[OF "1.prems"(2), of i] by (simp only: c)
    then have q: "Q m" and i: "I s'" by simp_all
    have "\<forall>m \<in> set (meshes_loop theme p ctx n (Suc i) s'). Q m"
      using "1.IH"[OF True c[symmetric] step i] .
    then show ?thesis using True c q by (simp add: meshes_loop.simps[of theme p ctx n i s])
  next
    case False
    then show ?thesis by (simp add: meshes_loop.simps[of theme p ctx n i s])
  qed
qed

lemma meshes_loop_first:
  "0 < n \<Longrightarrow> meshes_loop theme p ctx n 0 s =
     fst (createMeshDescriptor theme p s 0 ctx)
     # meshes_loop theme p ctx n (Suc 0) (snd (createMeshDescriptor theme p s 0 ctx))"
  by (simp add: meshes_loop.simps[of theme p ctx n 0 s] case_prod_beta)

subsection \<open>The generator as a whole\<close>

lemma generateModelSpec_cong:
  "fallbackPrompt P = fallbackPrompt Q
   \<Longrightarrow> sha256 (fallbackPrompt P) = sha256' (fallbackPrompt Q)
   \<Longrightarrow> generateModelSpec sha256 P = generateModelSpec sha256' Q"
  by (simp add: generateModelSpec_def createSeed_def)

lemma generateModelSpec_template:
  assumes "tryTemplateSpec (fallbackPrompt P) (analyzePromptHints (fallbackPrompt P))
             (createSeed sha256 (fallbackPrompt P)) = Some t"
  shows "generateModelSpec sha256 P = Inr t"
  using assms by (simp add: generateModelSpec_def Let_def)

lemma generateModelSpec_generic:
  assumes "\<not> template_path_taken sha256 P"
  shows "generateModelSpec sha256 P =
     (case fst (pickTheme (fallbackPrompt P) (createGenerator (createSeed sha256 (fallbackPrompt P)))
                  (Some (analyzePromptHints (fallbackPrompt P)))) of
        None \<Rightarrow> Inl TypeError
      | Some theme \<Rightarrow>
          Inr (generic_blueprint (fallbackPrompt P) (createSeed sha256 (fallbackPrompt P))
                 (analyzePromptHints (fallbackPrompt P)) theme
                 (snd (pickTheme (fallbackPrompt P)
                         (createGenerator (createSeed sha256 (fallbackPrompt P)))
                         (Some (analyzePromptHints (fallbackPrompt P)))))))"
  using assms
  by (simp add: generateModelSpec_def template_path_taken_def Let_def generic_blueprint_def
      case_prod_beta split: option.splits)

lemma generateModelSpec_generic_Inr:
  assumes "\<not> template_path_taken sha256 P" and "generateModelSpec sha256 P = Inr b"
  obtains theme s1 where
    "pickTheme (fallbackPrompt P) (createGenerator (createSeed sha256 (fallbackPrompt P)))
       (Some (analyzePromptHints (fallbackPrompt P))) = (Some theme, s1)"
    and "b = generic_blueprint (fallbackPrompt P) (createSeed sha256 (fallbackPrompt P))
               (analyzePromptHints (fallbackPrompt P)) theme s1"
proof -
  let ?pt = "pickTheme (fallbackPrompt P) (createGenerator (createSeed sha256 (fallbackPrompt P)))
       (Some (analyzePromptHints (fallbackPrompt P)))"
  from assms(2) generateModelSpec_generic[OF assms(1)]
  obtain theme where t: "fst ?pt = Some theme"
    and b: "b = generic_blueprint (fallbackPrompt P) (createSeed sha256 (fallbackPrompt P))
               (analyzePromptHints (fallbackPrompt P)) theme (snd ?pt)"
    by (cases "fst ?pt") auto
  have "?pt = (Some theme, snd ?pt)" using t by (metis prod.collapse)
  then show thesis using b that by blast
qed

lemma clamp_count: "1 \<le> clamp (c::int) 1 4 \<and> clamp c 1 4 \<le> 4"
  by (simp add: clamp_def)

lemma generic_blueprint_length:
  "int (length (meshes (generic_blueprint fp sd hints theme s1))) = clamp (fst (meshCount hints s1)) 1 4"
  using clamp_count[of "fst (meshCount hints s1)"]
  by (simp add: generic_blueprint_def meshes_loop_length)

lemma generic_blueprint_first:
  "meshes (generic_blueprint fp sd hints theme s1) \<noteq> []
   \<and> transform (hd (meshes (generic_blueprint fp sd hints theme s1))) =
       \<lparr> position = (0, 0, 0), rotation = (0, 0, 0), scale = (1, 1, 1) \<rparr>"
proof -
  have "0 < clamp (fst (meshCount hints s1)) 1 4"
    using clamp_count[of "fst (meshCount hints s1)"] by linarith
  then show ?thesis
    by (simp add: generic_blueprint_def meshes_loop_first cmd_transform_primary)
qed

lemma meshTarget_values:
  "meshTarget (analyzePromptHints p) = None \<or> meshTarget (analyzePromptHints p) = Some 1
   \<or> meshTarget (analyzePromptHints p) = Some 4"
  by (simp add: analyzePromptHints_def Let_def)

lemma template_meshes:
  assumes "tryTemplateSpec p hints sd = Some t"
  shows "length (meshes t) = 3
    \<and> map name (meshes t) = [''Cricket-Blade'', ''Cricket-Handle'', ''Bat-Logo-Panel'']"
  using assms
  by (auto simp: tryTemplateSpec_def SHAPE_TEMPLATES_def Let_def cricket_bat_buildMeshes_def
      case_prod_beta split: if_splits)

lemma pickTheme_keyword:
  assumes "find (\<lambda>preset. list_ex (\<lambda>keyword. str_includes (toLowerCase p) keyword)
              (theme_keywords preset)) THEME_PRESETS = Some t"
  shows "\<exists>t'. fst (pickTheme p s h) = Some t'"
  using assms by (auto simp: pickTheme_def Let_def split: option.splits)

lemma pickTheme_catalog:
  assumes "fst (pickTheme p s h) = Some t"
  shows "t \<in> set THEME_PRESETS"
proof -
  have f: "\<And>Q x. find Q THEME_PRESETS = Some x \<Longrightarrow> x \<in> set THEME_PRESETS"
    by (auto simp: find_Some_iff)
  have j: "\<And>i x. js_index THEME_PRESETS i = Some x \<Longrightarrow> x \<in> set THEME_PRESETS"
    by (auto simp: js_index_def split: if_splits)
  show ?thesis using assms
    by (auto simp: pickTheme_def Let_def case_prod_beta split: option.splits if_splits dest: f j)
qed

lemma pickTheme_ok:
  assumes "rng_ok s"
  shows "(\<exists>t. fst (pickTheme p s h) = Some t) \<and> rng_ok (snd (pickTheme p s h))"
proof -
  from assms obtain r s' where r: "rand s = (r, s')" and b: "0 \<le> r" "r < 1" and ok: "rng_ok s'"
    by (rule rand_obtain)
  have "THEME_PRESETS \<noteq> []" by (simp add: THEME_PRESETS_def)
  from js_index_floor[OF b this] obtain t where
    "js_index THEME_PRESETS \<lfloor>r * of_nat (length THEME_PRESETS)\<rfloor> = Some t" by blast
  then show ?thesis using assms r ok
    by (auto simp: pickTheme_def Let_def split: option.splits)
qed

lemma template_path_taken_iff:
  "template_path_taken sha256 P
   \<longleftrightarrow> includesAny (toLowerCase (fallbackPrompt P)) [''cricket bat'', ''bat'']"
  by (simp add: template_path_taken_def tryTemplateSpec_None_iff)

lemma generateModelSpec_returns_keyword:
  assumes "\<not> template_path_taken sha256 P"
    and "find (\<lambda>preset. list_ex (\<lambda>keyword. str_includes (toLowerCase (fallbackPrompt P)) keyword)
              (theme_keywords preset)) THEME_PRESETS \<noteq> None"
  shows "\<exists>b. generateModelSpec sha256 P = Inr b"
proof -
  from assms(2) obtain t where "find (\<lambda>preset. list_ex (\<lambda>keyword.
      str_includes (toLowerCase (fallbackPrompt P)) keyword) (theme_keywords preset)) THEME_PRESETS
      = Some t" by blast
  from pickTheme_keyword[OF this] obtain t' where
    "fst (pickTheme (fallbackPrompt P) (createGenerator (createSeed sha256 (fallbackPrompt P)))
       (Some (analyzePromptHints (fallbackPrompt P)))) = Some t'" by blast
  then show ?thesis using generateModelSpec_generic[OF assms(1)] by simp
qed

lemma tryTemplateSpec_Some:
  assumes "includesAny (toLowerCase p) [''cricket bat'', ''bat'']"
  shows "tryTemplateSpec p hints sd = Some (cricket_bat_blueprint p hints sd)"
  using assms
  by (cases "hint_accentColor hints")
     (simp_all add: tryTemplateSpec_def SHAPE_TEMPLATES_def Let_def cricket_bat_blueprint_def
      template_palette_def template_accent_def)


lemma generateModelSpec_prompt_seed:
  assumes "generateModelSpec sha256 P = Inr b"
  shows "prompt b = fallbackPrompt P \<and> seed b = createSeed sha256 (fallbackPrompt P)"
proof (cases "template_path_taken sha256 P")
  case True
  then have i: "includesAny (toLowerCase (fallbackPrompt P)) [''cricket bat'', ''bat'']"
    by (simp add: template_path_taken_iff)
  from generateModelSpec_template[OF tryTemplateSpec_Some[OF i]] assms
  show ?thesis by (auto simp: cricket_bat_blueprint_def)
next
  case False
  from generateModelSpec_generic_Inr[OF False assms] obtain theme s1 where
    "b = generic_blueprint (fallbackPrompt P) (createSeed sha256 (fallbackPrompt P))
               (analyzePromptHints (fallbackPrompt P)) theme s1" by blast
  then show ?thesis by (simp add: generic_blueprint_def)
qed

lemma sample_returns:
  assumes "fallbackPrompt (Some p) = p"
    and "\<not> includesAny (toLowerCase p) [''cricket bat'', ''bat'']"
    and "find (\<lambda>preset. list_ex (\<lambda>keyword. str_includes (toLowerCase p) keyword)
              (theme_keywords preset)) THEME_PRESETS \<noteq> None"
  shows "\<not> template_path_taken sha256 (Some p)"
    and "\<exists>b. generateModelSpec sha256 (Some p) = Inr b"
proof -
  show t: "\<not> template_path_taken sha256 (Some p)"
    by (simp only: template_path_taken_iff assms(1,2) not_False_eq_True)
  have k: "find (\<lambda>preset. list_ex (\<lambda>keyword.
              str_includes (toLowerCase (fallbackPrompt (Some p))) keyword)
              (theme_keywords preset)) THEME_PRESETS \<noteq> None"
    using assms(3) by (simp add: assms(1))
  show "\<exists>b. generateModelSpec sha256 (Some p) = Inr b"
    using t k by (rule generateModelSpec_returns_keyword)
qed

subsection \<open>Ranges\<close>

text \<open>
  From a sound seed every geometry of the generic path lies in the declared ranges, and the
  metalness and roughness of every mesh of every blueprint lie in [0,1].
\<close>

lemma meshCount_ok: "rng_ok s \<Longrightarrow> rng_ok (snd (meshCount hints s))"
  by (simp add: meshCount_def case_prod_beta rng_ok_snd_rand split: option.splits)

lemma geometry_in_declared_range_sound_seed:
  assumes "rng_ok (createGenerator (createSeed sha256 (fallbackPrompt P)))"
    and "\<not> template_path_taken sha256 P"
    and "generateModelSpec sha256 P = Inr b"
  shows "\<forall>m \<in> set (meshes b). in_declared_range (geometry m)"
proof -
  from generateModelSpec_generic_Inr[OF assms(2,3)] obtain theme s1 where
    pt: "pickTheme (fallbackPrompt P) (createGenerator (createSeed sha256 (fallbackPrompt P)))
       (Some (analyzePromptHints (fallbackPrompt P))) = (Some theme, s1)"
    and b: "b = generic_blueprint (fallbackPrompt P) (createSeed sha256 (fallbackPrompt P))
               (analyzePromptHints (fallbackPrompt P)) theme s1" by blast
  have "fst (pickTheme (fallbackPrompt P) (createGenerator (createSeed sha256 (fallbackPrompt P)))
       (Some (analyzePromptHints (fallbackPrompt P)))) = Some theme" by (simp add: pt)
  then have th: "theme \<in> set THEME_PRESETS" by (rule pickTheme_catalog)
  have "rng_ok s1" using pickTheme_ok[OF assms(1), of "fallbackPrompt P"
      "Some (analyzePromptHints (fallbackPrompt P))"] pt by simp
  then have ok: "rng_ok (snd (meshCount (analyzePromptHints (fallbackPrompt P)) s1))"
    by (rule meshCount_ok)
  have "\<forall>m \<in> set (meshes_loop theme (fallbackPrompt P) ctx n 0
                     (snd (meshCount (analyzePromptHints (fallbackPrompt P)) s1))).
          in_declared_range (geometry m)" for ctx n
  proof (rule meshes_loop_all[where I = rng_ok])
    fix s j assume "rng_ok s"
    then show "in_declared_range (geometry (fst (createMeshDescriptor theme (fallbackPrompt P) s j ctx)))
             \<and> rng_ok (snd (createMeshDescriptor theme (fallbackPrompt P) s j ctx))"
      using cmd_in_range cmd_rng_ok geometryPool_nonempty[OF th] by blast
  qed (rule ok)
  then show ?thesis by (simp add: b generic_blueprint_def)
qed

lemma material_unit_interval:
  assumes "generateModelSpec sha256 P = Inr b"
  shows "\<forall>m \<in> set (meshes b). 0 \<le> metalness (material m) \<and> metalness (material m) \<le> 1
                             \<and> 0 \<le> roughness (material m) \<and> roughness (material m) \<le> 1"
proof (cases "template_path_taken sha256 P")
  case True
  then have i: "includesAny (toLowerCase (fallbackPrompt P)) [''cricket bat'', ''bat'']"
    by (simp add: template_path_taken_iff)
  from generateModelSpec_template[OF tryTemplateSpec_Some[OF i]] assms
  have "b = cricket_bat_blueprint (fallbackPrompt P) (analyzePromptHints (fallbackPrompt P))
              (createSeed sha256 (fallbackPrompt P))" by simp
  then show ?thesis
    by (simp add: cricket_bat_blueprint_def cricket_bat_buildMeshes_def Let_def case_prod_beta)
next
  case False
  from generateModelSpec_generic_Inr[OF False assms] obtain theme s1 where
    b: "b = generic_blueprint (fallbackPrompt P) (createSeed sha256 (fallbackPrompt P))
               (analyzePromptHints (fallbackPrompt P)) theme s1" by blast
  have "\<forall>m \<in> set (meshes_loop theme (fallbackPrompt P) ctx n 0 s).
          0 \<le> metalness (material m) \<and> metalness (material m) \<le> 1
        \<and> 0 \<le> roughness (material m) \<and> roughness (material m) \<le> 1" for ctx n s
  proof (rule meshes_loop_all[where I = "\<lambda>_. True"])
    fix s j
    show "(0 \<le> metalness (material (fst (createMeshDescriptor theme (fallbackPrompt P) s j ctx)))
         \<and> metalness (material (fst (createMeshDescriptor theme (fallbackPrompt P) s j ctx))) \<le> 1
         \<and> 0 \<le> roughness (material (fst (createMeshDescriptor theme (fallbackPrompt P) s j ctx)))
         \<and> roughness (material (fst (createMeshDescriptor theme (fallbackPrompt P) s j ctx))) \<le> 1)
         \<and> True"
      unfolding cmd_material using clamp_unit by blast
  qed simp
  then show ?thesis by (simp add: b generic_blueprint_def)
qed

subsection \<open>The generator at seed 0\<close>

lemma rand_zero_fst: "fst (rand 0) = - 1 / 2147483646"
  by (simp add: rand_def)

lemma rand_zero_neg: "\<not> 0 \<le> fst (rand 0)"
  by (simp add: rand_def)

lemma rand_zero_snd: "snd (rand 0) = 0"
  by (simp add: rand_def)

lemma randomRange_zero_snd: "snd (randomRange 0 mn mx) = 0"
  by (simp add: randomRange_def case_prod_beta rand_zero_snd)

lemma floor_draw_zero:
  fixes c :: rat
  assumes "0 < c" and "c \<le> 2147483646"
  shows "\<lfloor>fst (rand 0) * c\<rfloor> = - 1"
proof (rule floor_unique)
  have "c / 2147483646 \<le> 1" using assms by simp
  then show "of_int (- 1) \<le> fst (rand 0) * c" by (simp add: rand_zero_fst)
  have "0 < c / 2147483646" using assms by simp
  then show "fst (rand 0) * c < of_int (- 1) + 1" by (simp add: rand_zero_fst)
qed

lemma round_draw_zero: "Math_round (fst (rand 0) * 1000000) = 0"
  unfolding Math_round_def by (rule floor_unique) (simp_all add: rand_zero_fst)

lemma createGeometry_undefined_zero:
  "createGeometry None 0 = (IcosahedronGeometry (1.2 + 0.5 * fst (rand 0)) (- 1), 0)"
  by (simp add: case_prod_beta randomRange_def rand_zero_snd floor_draw_zero)

subsection \<open>When the call returns\<close>

text \<open>
  The call returns a blueprint from every sound seed. It throws exactly when no template
  matches and \<open>pickTheme\<close> reads outside the catalog, which at seed 0 is the case for
  every prompt without a theme keyword.
\<close>

lemma generateModelSpec_returns:
  assumes "rng_ok (createGenerator (createSeed sha256 (fallbackPrompt P)))"
  shows "\<exists>b. generateModelSpec sha256 P = Inr b"
proof (cases "template_path_taken sha256 P")
  case True
  then have "includesAny (toLowerCase (fallbackPrompt P)) [''cricket bat'', ''bat'']"
    by (simp add: template_path_taken_iff)
  from generateModelSpec_template[OF tryTemplateSpec_Some[OF this]] show ?thesis by blast
next
  case False
  from pickTheme_ok[OF assms] obtain t where
    "fst (pickTheme (fallbackPrompt P) (createGenerator (createSeed sha256 (fallbackPrompt P)))
       (Some (analyzePromptHints (fallbackPrompt P)))) = Some t" by blast
  then show ?thesis using generateModelSpec_generic[OF False] by simp
qed

lemma generateModelSpec_throws_iff:
  "generateModelSpec sha256 P = Inl TypeError \<longleftrightarrow>
     \<not> template_path_taken sha256 P
   \<and> fst (pickTheme (fallbackPrompt P) (createGenerator (createSeed sha256 (fallbackPrompt P)))
            (Some (analyzePromptHints (fallbackPrompt P)))) = None"
proof (cases "template_path_taken sha256 P")
  case True
  then have "includesAny (toLowerCase (fallbackPrompt P)) [''cricket bat'', ''bat'']"
    by (simp add: template_path_taken_iff)
  from generateModelSpec_template[OF tryTemplateSpec_Some[OF this]] True show ?thesis by simp
next
  case False
  then show ?thesis using generateModelSpec_generic[OF False] by (simp split: option.splits)
qed

lemma pickTheme_zero_no_keyword:
  assumes "find (\<lambda>preset. list_ex (\<lambda>keyword. str_includes (toLowerCase p) keyword)
              (theme_keywords preset)) THEME_PRESETS = None"
  shows "fst (pickTheme p 0 (Some (analyzePromptHints p))) = None"
  using assms
  by (simp add: pickTheme_def analyzePromptHints_def Let_def case_prod_beta js_index_def
      rand_zero_neg floor_draw_zero THEME_PRESETS_def)

subsection \<open>The store embedding and the state-passing one\<close>

text \<open>
  Every function of the store embedding reads and assigns the variable of its handle
  only, and computes from it what the state-passing function computes from the state.
\<close>

lemma st_rand_eq:
  "st_rand h w = (fst (rand (cell w h)), w\<lparr> cell := (cell w)(h := snd (rand (cell w h))) \<rparr>)"
  by (simp add: st_rand_def rand_def Let_def)

lemma st_randomRange_eq:
  "st_randomRange h mn mx w =
     (fst (randomRange (cell w h) mn mx),
      w\<lparr> cell := (cell w)(h := snd (randomRange (cell w h) mn mx)) \<rparr>)"
  by (simp add: st_randomRange_def randomRange_def st_rand_eq case_prod_beta)

lemma st_createGeometry_eq:
  "st_createGeometry k h w =
     (fst (createGeometry k (cell w h)),
      w\<lparr> cell := (cell w)(h := snd (createGeometry k (cell w h))) \<rparr>)"
proof (cases k)
  case None
  then show ?thesis by (simp add: st_rand_eq st_randomRange_eq case_prod_beta)
next
  case (Some a)
  then show ?thesis
    by (cases a) (simp_all add: st_rand_eq st_randomRange_eq case_prod_beta)
qed

lemma st_createTransform_eq:
  "st_createTransform h i w =
     (fst (createTransform (cell w h) i),
      w\<lparr> cell := (cell w)(h := snd (createTransform (cell w h) i)) \<rparr>)"
  by (simp add: st_createTransform_def createTransform_def st_randomRange_eq case_prod_beta)

lemma st_createMeshName_eq:
  "st_createMeshName p k h i w =
     (fst (createMeshName p k (cell w h) i),
      w\<lparr> cell := (cell w)(h := snd (createMeshName p k (cell w h) i)) \<rparr>)"
  by (simp add: st_createMeshName_def createMeshName_def st_rand_eq case_prod_beta Let_def)

lemma st_geometryKind_eq:
  "st_geometryKind theme ctx i h w =
     (fst (geometryKind theme ctx i (cell w h)),
      w\<lparr> cell := (cell w)(h := snd (geometryKind theme ctx i (cell w h))) \<rparr>)"
  by (simp add: st_geometryKind_def geometryKind_def st_rand_eq case_prod_beta Let_def
      split: option.splits)

lemma st_createMeshDescriptor_eq:
  "st_createMeshDescriptor theme p h i ctx w =
     (fst (createMeshDescriptor theme p (cell w h) i ctx),
      w\<lparr> cell := (cell w)(h := snd (createMeshDescriptor theme p (cell w h) i ctx)) \<rparr>)"
proof (cases "i = 0")
  case True
  obtain kind s2 where f1: "geometryKind theme ctx i (cell w h) = (kind, s2)"
    by (cases "geometryKind theme ctx i (cell w h)")
  obtain geo s3 where f2: "createGeometry kind s2 = (geo, s3)"
    by (cases "createGeometry kind s2")
  obtain trans s4 where f3: "createTransform s3 i = (trans, s4)"
    by (cases "createTransform s3 i")
  obtain j1 s6 where f5: "randomRange s4 0.9 1.4 = (j1, s6)"
    by (cases "randomRange s4 0.9 1.4")
  obtain j2 s7 where f6: "randomRange s6 0.8 1.2 = (j2, s7)"
    by (cases "randomRange s6 0.8 1.2")
  obtain r3 s8 where f7: "rand s7 = (r3, s8)"
    by (cases "rand s7")
  obtain j4 s9 where f8: "randomRange s8 0.7 1.3 = (j4, s9)"
    by (cases "randomRange s8 0.7 1.3")
  obtain j5 s10 where f9: "randomRange s9 0.5 1.2 = (j5, s10)"
    by (cases "randomRange s9 0.5 1.2")
  obtain j6 s11 where f10: "randomRange s10 0.8 1.2 = (j6, s11)"
    by (cases "randomRange s10 0.8 1.2")
  obtain r13 s13 where f11: "rand s11 = (r13, s13)"
    by (cases "rand s11")
  obtain nm s14 where f12: "createMeshName p kind s13 i = (nm, s14)"
    by (cases "createMeshName p kind s13 i")
  show ?thesis
    using True f1 f2 f3 f5 f6 f7 f8 f9 f10 f11 f12
    by (simp add: st_createMeshDescriptor_def createMeshDescriptor_def st_rand_eq
        st_randomRange_eq st_geometryKind_eq st_createGeometry_eq st_createTransform_eq
        st_createMeshName_eq Let_def
        del: st_createGeometry.simps createGeometry.simps split del: if_split cong: if_cong)
       (simp_all add: ac_simps)
next
  case False
  show ?thesis
  proof (cases "length (if length (ctx_palette ctx) \<noteq> 0 then ctx_palette ctx
                     else theme_palette theme) = 1")
    case one: True
  obtain kind s2 where f1: "geometryKind theme ctx i (cell w h) = (kind, s2)"
      by (cases "geometryKind theme ctx i (cell w h)")
    obtain geo s3 where f2: "createGeometry kind s2 = (geo, s3)"
      by (cases "createGeometry kind s2")
    obtain trans s4 where f3: "createTransform s3 i = (trans, s4)"
      by (cases "createTransform s3 i")
    obtain j1 s6 where f5: "randomRange s4 0.9 1.4 = (j1, s6)"
      by (cases "randomRange s4 0.9 1.4")
    obtain j2 s7 where f6: "randomRange s6 0.8 1.2 = (j2, s7)"
      by (cases "randomRange s6 0.8 1.2")
    obtain r3 s8 where f7: "rand s7 = (r3, s8)"
      by (cases "rand s7")
    obtain j4 s9 where f8: "randomRange s8 0.7 1.3 = (j4, s9)"
      by (cases "randomRange s8 0.7 1.3")
    obtain j5 s10 where f9: "randomRange s9 0.5 1.2 = (j5, s10)"
      by (cases "randomRange s9 0.5 1.2")
    obtain j6 s11 where f10: "randomRange s10 0.8 1.2 = (j6, s11)"
      by (cases "randomRange s10 0.8 1.2")
    obtain rw s12 where f11: "rand s11 = (rw, s12)"
      by (cases "rand s11")
    obtain r13 s13 where f12: "rand s12 = (r13, s13)"
      by (cases "rand s12")
    obtain nm s14 where f13: "createMeshName p kind s13 i = (nm, s14)"
      by (cases "createMeshName p kind s13 i")
    show ?thesis
      using False one f1 f2 f3 f5 f6 f7 f8 f9 f10 f11 f12 f13
      by (simp add: st_createMeshDescriptor_def createMeshDescriptor_def st_rand_eq
          st_randomRange_eq st_geometryKind_eq st_createGeometry_eq st_createTransform_eq
          st_createMeshName_eq Let_def
          del: st_createGeometry.simps createGeometry.simps split del: if_split cong: if_cong)
       (simp_all add: ac_simps)
  next
    case more: False
  obtain kind s2 where f1: "geometryKind theme ctx i (cell w h) = (kind, s2)"
      by (cases "geometryKind theme ctx i (cell w h)")
    obtain geo s3 where f2: "createGeometry kind s2 = (geo, s3)"
      by (cases "createGeometry kind s2")
    obtain trans s4 where f3: "createTransform s3 i = (trans, s4)"
      by (cases "createTransform s3 i")
    obtain rp s5 where f4: "rand s4 = (rp, s5)"
      by (cases "rand s4")
    obtain j1 s6 where f5: "randomRange s5 0.9 1.4 = (j1, s6)"
      by (cases "randomRange s5 0.9 1.4")
    obtain j2 s7 where f6: "randomRange s6 0.8 1.2 = (j2, s7)"
      by (cases "randomRange s6 0.8 1.2")
    obtain r3 s8 where f7: "rand s7 = (r3, s8)"
      by (cases "rand s7")
    obtain j4 s9 where f8: "randomRange s8 0.7 1.3 = (j4, s9)"
      by (cases "randomRange s8 0.7 1.3")
    obtain j5 s10 where f9: "randomRange s9 0.5 1.2 = (j5, s10)"
      by (cases "randomRange s9 0.5 1.2")
    obtain j6 s11 where f10: "randomRange s10 0.8 1.2 = (j6, s11)"
      by (cases "randomRange s10 0.8 1.2")
    obtain rw s12 where f11: "rand s11 = (rw, s12)"
      by (cases "rand s11")
    obtain r13 s13 where f12: "rand s12 = (r13, s13)"
      by (cases "rand s12")
    obtain nm s14 where f13: "createMeshName p kind s13 i = (nm, s14)"
      by (cases "createMeshName p kind s13 i")
    show ?thesis
      using False more f1 f2 f3 f4 f5 f6 f7 f8 f9 f10 f11 f12 f13
      by (simp add: st_createMeshDescriptor_def createMeshDescriptor_def st_rand_eq
          st_randomRange_eq st_geometryKind_eq st_createGeometry_eq st_createTransform_eq
          st_createMeshName_eq Let_def
          del: st_createGeometry.simps createGeometry.simps split del: if_split cong: if_cong)
       (simp_all add: ac_simps)
  qed
qed

lemma st_meshes_loop_eq:
  "st_meshes_loop theme p ctx n i h w =
     (meshes_loop theme p ctx n i (cell w h), snd (st_meshes_loop theme p ctx n i h w))"
proof (induction theme p ctx n i h w rule: st_meshes_loop.induct)
  case (1 theme p ctx n i h w)
  show ?case
  proof (cases "int i < n")
    case True
    let ?w' = "w\<lparr> cell := (cell w)(h := snd (createMeshDescriptor theme p (cell w h) i ctx)) \<rparr>"
    have c: "st_createMeshDescriptor theme p h i ctx w =
               (fst (createMeshDescriptor theme p (cell w h) i ctx), ?w')"
      by (rule st_createMeshDescriptor_eq)
    have ih: "fst (st_meshes_loop theme p ctx n (Suc i) h ?w') =
               meshes_loop theme p ctx n (Suc i) (cell ?w' h)"
      using "1.IH"[OF True c[symmetric]] by (metis fst_conv)
    have "fst (st_meshes_loop theme p ctx n i h w) = meshes_loop theme p ctx n i (cell w h)"
      using True ih
      by (simp add: st_meshes_loop.simps[of theme p ctx n i h w]
          meshes_loop.simps[of theme p ctx n i "cell w h"] c case_prod_beta)
    then show ?thesis by (metis prod.collapse)
  next
    case False
    then show ?thesis
      by (simp add: st_meshes_loop.simps[of theme p ctx n i h w]
          meshes_loop.simps[of theme p ctx n i "cell w h"])
  qed
qed

lemma st_pickTheme_eq:
  "st_pickTheme p h hints w =
     (fst (pickTheme p (cell w h) hints),
      w\<lparr> cell := (cell w)(h := snd (pickTheme p (cell w h) hints)) \<rparr>)"
  by (simp add: st_pickTheme_def pickTheme_def st_rand_eq case_prod_beta Let_def
      split: option.splits)

lemma st_meshCount_eq:
  "st_meshCount hints h w =
     (fst (meshCount hints (cell w h)),
      w\<lparr> cell := (cell w)(h := snd (meshCount hints (cell w h))) \<rparr>)"
  by (simp add: st_meshCount_def meshCount_def st_rand_eq case_prod_beta split: option.splits)

lemma st_createTemplateId_eq:
  "st_createTemplateId pre h w =
     (fst (createTemplateId pre (cell w h)),
      w\<lparr> cell := (cell w)(h := snd (createTemplateId pre (cell w h))) \<rparr>)"
  by (simp add: st_createTemplateId_def createTemplateId_def st_rand_eq case_prod_beta)

lemma st_cricket_bat_buildMeshes_eq:
  "fst (st_cricket_bat_buildMeshes palette accent h w) =
     fst (cricket_bat_buildMeshes palette accent (cell w h))"
  by (simp add: st_cricket_bat_buildMeshes_def cricket_bat_buildMeshes_def
      st_createTemplateId_eq case_prod_beta Let_def)

lemma st_tryTemplateSpec_fst:
  "fst (st_tryTemplateSpec p hints sd w) = tryTemplateSpec p hints sd"
  by (simp add: st_tryTemplateSpec_def tryTemplateSpec_def st_SHAPE_TEMPLATES_def
      SHAPE_TEMPLATES_def st_createGenerator_def createGenerator_def
      st_cricket_bat_buildMeshes_eq case_prod_beta Let_def)

lemma st_tryTemplateSpec_None:
  "tryTemplateSpec p hints sd = None \<Longrightarrow> st_tryTemplateSpec p hints sd w = (None, w)"
  by (simp add: st_tryTemplateSpec_def tryTemplateSpec_def st_SHAPE_TEMPLATES_def
      SHAPE_TEMPLATES_def Let_def split: if_splits)


lemma st_generateModelSpec_fst:
  "fst (st_generateModelSpec sha256 p w) = generateModelSpec sha256 p"
proof -
  let ?fp = "fallbackPrompt p"
  let ?sd = "createSeed sha256 ?fp"
  let ?hints = "analyzePromptHints ?fp"
  let ?h = "next_handle w"
  let ?w0 = "w\<lparr> next_handle := Suc (next_handle w), cell := (cell w)(next_handle w := ?sd) \<rparr>"
  have g: "st_createGenerator ?sd w = (?h, ?w0)" by (simp add: st_createGenerator_def)
  have c0: "cell ?w0 ?h = createGenerator ?sd" by (simp add: createGenerator_def)
  show ?thesis
  proof (cases "tryTemplateSpec ?fp ?hints ?sd")
    case (Some t)
    then have "fst (st_tryTemplateSpec ?fp ?hints ?sd ?w0) = Some t"
      by (simp add: st_tryTemplateSpec_fst)
    then obtain w1 where "st_tryTemplateSpec ?fp ?hints ?sd ?w0 = (Some t, w1)"
      by (cases "st_tryTemplateSpec ?fp ?hints ?sd ?w0") auto
    then show ?thesis using Some
      by (simp add: st_generateModelSpec_def generateModelSpec_def g Let_def)
  next
    case None
    then have t: "st_tryTemplateSpec ?fp ?hints ?sd ?w0 = (None, ?w0)"
      by (rule st_tryTemplateSpec_None)
    obtain th s1 where pt: "pickTheme ?fp (createGenerator ?sd) (Some ?hints) = (th, s1)"
      by (cases "pickTheme ?fp (createGenerator ?sd) (Some ?hints)")
    let ?w2 = "?w0\<lparr> cell := (cell ?w0)(?h := s1) \<rparr>"
    have spt: "st_pickTheme ?fp ?h (Some ?hints) ?w0 = (th, ?w2)"
      unfolding st_pickTheme_eq c0 pt by simp
    show ?thesis
    proof (cases th)
      case None
      then show ?thesis using \<open>tryTemplateSpec ?fp ?hints ?sd = None\<close>
        by (simp add: st_generateModelSpec_def generateModelSpec_def g t spt pt Let_def)
    next
      case (Some theme)
      obtain cnt s2 where mc: "meshCount ?hints s1 = (cnt, s2)"
        by (cases "meshCount ?hints s1")
      let ?w3 = "?w2\<lparr> cell := (cell ?w2)(?h := s2) \<rparr>"
      have c2: "cell ?w2 ?h = s1" by simp
      have smc: "st_meshCount ?hints ?h ?w2 = (cnt, ?w3)"
        unfolding st_meshCount_eq c2 mc by simp
      have c3: "cell ?w3 ?h = s2" by simp
      obtain pal acc where rp: "resolvePalette theme ?hints = (pal, acc)"
        by (cases "resolvePalette theme ?hints")
      let ?ctx = "\<lparr> ctx_palette = pal, ctx_accentColor = acc,
                    ctx_primaryGeometry = geometryPreference ?hints,
                    ctx_detailBias = detailBias ?hints \<rparr>"
      obtain ms w4 where sl: "st_meshes_loop theme ?fp ?ctx (clamp cnt 1 4) 0 ?h ?w3 = (ms, w4)"
        by (cases "st_meshes_loop theme ?fp ?ctx (clamp cnt 1 4) 0 ?h ?w3")
      have "ms = meshes_loop theme ?fp ?ctx (clamp cnt 1 4) 0 (cell ?w3 ?h)"
        using st_meshes_loop_eq[of theme ?fp ?ctx "clamp cnt 1 4" 0 ?h ?w3] sl by simp
      then have ms: "ms = meshes_loop theme ?fp ?ctx (clamp cnt 1 4) 0 s2"
        by (simp only: c3)
      have l: "st_generateModelSpec sha256 p w =
                 (Inr \<lparr> prompt = ?fp, seed = ?sd,
                        environment = (case environmentHint ?hints of
                                         Some e \<Rightarrow> e | None \<Rightarrow> theme_environment theme),
                        accentColor = Some acc, meshes = ms \<rparr>, w4)"
        unfolding st_generateModelSpec_def Let_def g prod.case t spt Some option.case
          rp smc sl ..
      have r: "generateModelSpec sha256 p =
                 Inr \<lparr> prompt = ?fp, seed = ?sd,
                       environment = (case environmentHint ?hints of
                                        Some e \<Rightarrow> e | None \<Rightarrow> theme_environment theme),
                       accentColor = Some acc, meshes = ms \<rparr>"
        unfolding generateModelSpec_def Let_def \<open>tryTemplateSpec ?fp ?hints ?sd = None\<close>
          option.case pt Some prod.case rp mc ms ..
      show ?thesis by (simp only: l r fst_conv)
    qed
  qed
qed

lemma st_meshes_loop_frame:
  "\<exists>s. snd (st_meshes_loop theme p ctx n i h w) = w\<lparr> cell := (cell w)(h := s) \<rparr>"
proof (induction theme p ctx n i h w rule: st_meshes_loop.induct)
  case (1 theme p ctx n i h w)
  show ?case
  proof (cases "int i < n")
    case True
    let ?w' = "w\<lparr> cell := (cell w)(h := snd (createMeshDescriptor theme p (cell w h) i ctx)) \<rparr>"
    have c: "st_createMeshDescriptor theme p h i ctx w =
               (fst (createMeshDescriptor theme p (cell w h) i ctx), ?w')"
      by (rule st_createMeshDescriptor_eq)
    from "1.IH"[OF True c[symmetric]] obtain s where
      s: "snd (st_meshes_loop theme p ctx n (Suc i) h ?w') = ?w'\<lparr> cell := (cell ?w')(h := s) \<rparr>"
      by blast
    have "snd (st_meshes_loop theme p ctx n i h w)
            = snd (st_meshes_loop theme p ctx n (Suc i) h ?w')"
      using True by (simp add: st_meshes_loop.simps[of theme p ctx n i h w] c case_prod_beta)
    also have "\<dots> = w\<lparr> cell := (cell w)(h := s) \<rparr>" unfolding s by simp
    finally show ?thesis by (rule exI)
  next
    case False
    have "snd (st_meshes_loop theme p ctx n i h w) = w"
      using False by (simp add: st_meshes_loop.simps[of theme p ctx n i h w])
    also have "w = w\<lparr> cell := (cell w)(h := cell w h) \<rparr>" by simp
    finally show ?thesis by (rule exI)
  qed
qed

lemma st_cricket_bat_buildMeshes_snd:
  "snd (st_cricket_bat_buildMeshes palette accent h w) =
     w\<lparr> cell := (cell w)(h := snd (cricket_bat_buildMeshes palette accent (cell w h))) \<rparr>"
  by (simp add: st_cricket_bat_buildMeshes_def cricket_bat_buildMeshes_def
      st_createTemplateId_eq case_prod_beta Let_def)

lemma st_tryTemplateSpec_frame:
  "next_handle w \<le> next_handle (snd (st_tryTemplateSpec p hints sd w))
   \<and> (\<forall>h < next_handle w. cell (snd (st_tryTemplateSpec p hints sd w)) h = cell w h)"
proof (cases "includesAny (toLowerCase p) [''cricket bat'', ''bat'']")
  case True
  then show ?thesis
    by (simp add: st_tryTemplateSpec_def st_SHAPE_TEMPLATES_def st_createGenerator_def
        st_cricket_bat_buildMeshes_snd case_prod_beta Let_def)
next
  case False
  then show ?thesis
    by (simp add: st_tryTemplateSpec_def st_SHAPE_TEMPLATES_def Let_def)
qed

lemma st_generateModelSpec_frame:
  "next_handle w < next_handle (snd (st_generateModelSpec sha256 p w))
   \<and> (\<forall>h < next_handle w. cell (snd (st_generateModelSpec sha256 p w)) h = cell w h)"
proof -
  let ?fp = "fallbackPrompt p"
  let ?sd = "createSeed sha256 ?fp"
  let ?hints = "analyzePromptHints ?fp"
  let ?h = "next_handle w"
  let ?w0 = "w\<lparr> next_handle := Suc (next_handle w), cell := (cell w)(next_handle w := ?sd) \<rparr>"
  have g: "st_createGenerator ?sd w = (?h, ?w0)" by (simp add: st_createGenerator_def)
  obtain ts w1 where t: "st_tryTemplateSpec ?fp ?hints ?sd ?w0 = (ts, w1)"
    by (cases "st_tryTemplateSpec ?fp ?hints ?sd ?w0")
  have f1: "next_handle ?w0 \<le> next_handle w1" "\<forall>h < next_handle ?w0. cell w1 h = cell ?w0 h"
    using st_tryTemplateSpec_frame[of ?w0 ?fp ?hints ?sd] by (simp_all add: t)
  have k1: "next_handle w < next_handle w1" using f1(1) by simp
  have k2: "\<forall>h < next_handle w. cell w1 h = cell w h" using f1(2) by simp
  show ?thesis
  proof (cases ts)
    case (Some b)
    then show ?thesis using k1 k2
      by (simp add: st_generateModelSpec_def g t Let_def)
  next
    case None
    obtain th w2 where pt: "st_pickTheme ?fp ?h (Some ?hints) w1 = (th, w2)"
      by (cases "st_pickTheme ?fp ?h (Some ?hints) w1")
    then obtain s1 where w2: "w2 = w1\<lparr> cell := (cell w1)(?h := s1) \<rparr>"
      by (auto simp: st_pickTheme_eq)
    show ?thesis
    proof (cases th)
      case None
      then show ?thesis using k1 k2 \<open>ts = None\<close>
        by (simp add: st_generateModelSpec_def g t pt w2 Let_def)
    next
      case (Some theme)
      obtain cnt w3 where mc: "st_meshCount ?hints ?h w2 = (cnt, w3)"
        by (cases "st_meshCount ?hints ?h w2")
      then obtain s2 where w3: "w3 = w2\<lparr> cell := (cell w2)(?h := s2) \<rparr>"
        by (auto simp: st_meshCount_eq)
      obtain pal acc where rp: "resolvePalette theme ?hints = (pal, acc)"
        by (cases "resolvePalette theme ?hints")
      let ?ctx = "\<lparr> ctx_palette = pal, ctx_accentColor = acc,
                    ctx_primaryGeometry = geometryPreference ?hints,
                    ctx_detailBias = detailBias ?hints \<rparr>"
      obtain ms w4 where sl: "st_meshes_loop theme ?fp ?ctx (clamp cnt 1 4) 0 ?h w3 = (ms, w4)"
        by (cases "st_meshes_loop theme ?fp ?ctx (clamp cnt 1 4) 0 ?h w3")
      from st_meshes_loop_frame[of theme ?fp ?ctx "clamp cnt 1 4" 0 ?h w3] obtain s3 where
        w4: "w4 = w3\<lparr> cell := (cell w3)(?h := s3) \<rparr>" by (auto simp: sl)
      have l: "snd (st_generateModelSpec sha256 p w) = w4"
        unfolding st_generateModelSpec_def Let_def g prod.case t \<open>ts = None\<close> option.case
          pt Some rp mc sl by simp
      show ?thesis unfolding l using k1 k2 by (simp add: w4 w3 w2)
    qed
  qed
qed

text \<open>
  The prompt "vase 2911017926" has no keyword of a theme or a template and its digest
  begins 00000000: theme selection reads \<open>THEME_PRESETS[-1]\<close> and the call throws.
\<close>

lemma generateModelSpec_throws_sample:
  "generateModelSpec sha256_sample (Some ''vase 2911017926'') = Inl TypeError"
proof -
  have fp: "fallbackPrompt (Some ''vase 2911017926'') = ''vase 2911017926''" by code_simp
  have nt: "\<not> includesAny (toLowerCase ''vase 2911017926'') [''cricket bat'', ''bat'']"
    by code_simp
  have kw: "find (\<lambda>preset. list_ex (\<lambda>keyword.
              str_includes (toLowerCase ''vase 2911017926'') keyword)
              (theme_keywords preset)) THEME_PRESETS = None" by code_simp
  have sd: "createSeed sha256_sample ''vase 2911017926'' = 0"
    by (simp add: createSeed_def sha256_sample_def)
  have t: "\<not> template_path_taken sha256_sample (Some ''vase 2911017926'')"
    by (simp only: template_path_taken_iff fp nt not_False_eq_True)
  show ?thesis
    unfolding generateModelSpec_throws_iff fp sd createGenerator_def
    using t pickTheme_zero_no_keyword[OF kw] by simp
qed

section \<open>The claims\<close>

text \<open>
  C4 (the generator's contract: the state is multiplied by 16807 modulo 2147483647 and the
  draw is (state - 1) / 2147483646, a value in [0,1), for every 32-bit seed). The code at
  seed 0: the state stays 0 and the draw is -1/2147483646, below 0. Lemma \<open>rand_ok\<close> is
  the contract on the seeds that are not a multiple of 2147483647.
\<close>

theorem createGenerator_zero_seed_draw:
  "rand (createGenerator 0) = (- 1 / 2147483646, createGenerator 0)
   \<and> fst (rand (createGenerator 0)) < 0"
  by (simp add: rand_def createGenerator_def)

text \<open>
  C9 (totality of the geometry-kind selection): for every theme of the catalog, every
  context and every index, the pool of the selection is not empty (the primary pool holds
  the theme's primary geometry, the secondary pool the theme's three secondary geometries),
  and under a draw in [0,1) the selection yields a kind of the pool after that one draw:
  the second draw, from the theme's secondary geometries, is not reached.
\<close>

theorem geometryKind_selection_total:
  assumes "theme \<in> set THEME_PRESETS" and "rand s0 = (r, s1)" and "0 \<le> r" and "r < 1"
  shows "primaryGeometry theme \<in> set (primaryCandidates theme ctx)
       \<and> length (secondaryGeometries theme) = 3
       \<and> set (secondaryGeometries theme) \<subseteq> set (secondaryCandidates theme ctx)
       \<and> geometryPool theme ctx i \<noteq> []
       \<and> (\<exists>k. k \<in> set (geometryPool theme ctx i)
              \<and> js_index (geometryPool theme ctx i)
                    \<lfloor>r * of_nat (length (geometryPool theme ctx i))\<rfloor> = Some k
              \<and> geometryKind theme ctx i s0 = (Some k, s1))"
proof -
  have ne: "geometryPool theme ctx i \<noteq> []" using assms(1) by (rule geometryPool_nonempty)
  from js_index_floor[OF assms(3,4) ne] obtain k where
    k: "js_index (geometryPool theme ctx i)
          \<lfloor>r * of_nat (length (geometryPool theme ctx i))\<rfloor> = Some k"
    and m: "k \<in> set (geometryPool theme ctx i)" by blast
  have sel: "geometryKind theme ctx i s0 = (Some k, s1)"
    by (simp add: geometryKind_def Let_def assms(2) k)
  have p: "primaryGeometry theme \<in> set (primaryCandidates theme ctx)"
    by (simp add: primaryCandidates_def)
  have s: "set (secondaryGeometries theme) \<subseteq> set (secondaryCandidates theme ctx)"
    by (simp add: secondaryCandidates_def)
  show ?thesis using p s ne k m sel catalog_secondaries[OF assms(1)] by blast
qed

text \<open>C9 at the first theme, index 1, a torus hint and the generator state 1.\<close>

theorem geometryKind_selection_total_witness:
  "hd THEME_PRESETS \<in> set THEME_PRESETS \<and> rand 1 = (8403 / 1073741823, 16807)
   \<and> geometryKind (hd THEME_PRESETS)
        \<lparr> ctx_palette = [], ctx_accentColor = ''#facc15'', ctx_primaryGeometry = Some Torus,
          ctx_detailBias = Neutral \<rparr> 1 1 = (Some Torus, 16807)"
proof -
  have a: "hd THEME_PRESETS \<in> set THEME_PRESETS" by (simp add: THEME_PRESETS_def)
  have b: "rand 1 = (8403 / 1073741823, 16807)" by (simp add: rand_def)
  have c: "(0::rat) \<le> 8403 / 1073741823" "(8403 / 1073741823 :: rat) < 1" by simp_all
  from geometryKind_selection_total[OF a b c,
      of "\<lparr> ctx_palette = [], ctx_accentColor = ''#facc15'', ctx_primaryGeometry = Some Torus,
           ctx_detailBias = Neutral \<rparr>" 1]
  show ?thesis using a b
    by (simp add: geometryPool_def secondaryCandidates_def THEME_PRESETS_def js_index_def)
qed

text \<open>
  C3 (mesh count bounds): every blueprint that \<open>generateModelSpec\<close> returns, on the template
  path too, has at least 1 and at most 4 meshes; on the generic path the hint target is
  absent, 1 or 4, and the count is the target when present, else 2 + floor(rand() * 3) for
  the draw that follows theme selection, clamped to [1,4].
\<close>

theorem mesh_count_bounds:
  assumes "generateModelSpec sha256 P = Inr b"
  shows "1 \<le> length (meshes b) \<and> length (meshes b) \<le> 4
    \<and> (\<not> template_path_taken sha256 P \<longrightarrow>
         (meshTarget (analyzePromptHints (fallbackPrompt P)) = None
          \<or> meshTarget (analyzePromptHints (fallbackPrompt P)) = Some 1
          \<or> meshTarget (analyzePromptHints (fallbackPrompt P)) = Some 4)
       \<and> int (length (meshes b)) =
           clamp (case meshTarget (analyzePromptHints (fallbackPrompt P)) of
                    Some t \<Rightarrow> t
                  | None \<Rightarrow>
                      2 + \<lfloor>fst (rand (snd (pickTheme (fallbackPrompt P)
                                 (createGenerator (createSeed sha256 (fallbackPrompt P)))
                                 (Some (analyzePromptHints (fallbackPrompt P)))))) * 3\<rfloor>)
             1 4)"
proof (cases "template_path_taken sha256 P")
  case True
  then obtain t where t: "tryTemplateSpec (fallbackPrompt P) (analyzePromptHints (fallbackPrompt P))
             (createSeed sha256 (fallbackPrompt P)) = Some t"
    by (auto simp: template_path_taken_def)
  then have "b = t" using generateModelSpec_template[OF t] assms by simp
  then show ?thesis using template_meshes[OF t] True by simp
next
  case False
  from generateModelSpec_generic_Inr[OF False assms] obtain theme s1 where
    pt: "pickTheme (fallbackPrompt P) (createGenerator (createSeed sha256 (fallbackPrompt P)))
       (Some (analyzePromptHints (fallbackPrompt P))) = (Some theme, s1)"
    and b: "b = generic_blueprint (fallbackPrompt P) (createSeed sha256 (fallbackPrompt P))
               (analyzePromptHints (fallbackPrompt P)) theme s1" by blast
  let ?h = "analyzePromptHints (fallbackPrompt P)"
  let ?s1 = "snd (pickTheme (fallbackPrompt P)
                (createGenerator (createSeed sha256 (fallbackPrompt P))) (Some ?h))"
  have s1: "s1 = ?s1" by (simp add: pt)
  have len: "int (length (meshes b)) = clamp (fst (meshCount ?h ?s1)) 1 4"
    unfolding b s1 by (rule generic_blueprint_length)
  have mc: "fst (meshCount ?h ?s1) = (case meshTarget ?h of Some t \<Rightarrow> t
               | None \<Rightarrow> 2 + \<lfloor>fst (rand ?s1) * 3\<rfloor>)"
    by (simp add: meshCount_def case_prod_beta split: option.splits)
  have bounds: "1 \<le> length (meshes b) \<and> length (meshes b) \<le> 4"
    using len clamp_count[of "fst (meshCount ?h ?s1)"] by linarith
  have "int (length (meshes b)) = clamp (case meshTarget ?h of Some t \<Rightarrow> t
               | None \<Rightarrow> 2 + \<lfloor>fst (rand ?s1) * 3\<rfloor>) 1 4"
    using len by (simp only: mc)
  then show ?thesis using bounds meshTarget_values[of "fallbackPrompt P"] by blast
qed

text \<open>C3 at the prompt "robot fleet": the multi-object hint gives four meshes.\<close>

theorem mesh_count_bounds_witness:
  "case generateModelSpec sha256_sample (Some ''robot fleet'') of
     Inl e \<Rightarrow> False
   | Inr b \<Rightarrow> 1 \<le> length (meshes b) \<and> length (meshes b) \<le> 4 \<and> length (meshes b) = 4"
proof -
  have fp: "fallbackPrompt (Some ''robot fleet'') = ''robot fleet''" by code_simp
  have nt: "\<not> includesAny (toLowerCase ''robot fleet'') [''cricket bat'', ''bat'']" by code_simp
  have kw: "find (\<lambda>preset. list_ex (\<lambda>keyword. str_includes (toLowerCase ''robot fleet'') keyword)
              (theme_keywords preset)) THEME_PRESETS \<noteq> None" by code_simp
  have mt: "meshTarget (analyzePromptHints ''robot fleet'') = Some 4" by code_simp
  have t: "\<not> template_path_taken sha256_sample (Some ''robot fleet'')"
    by (simp only: template_path_taken_iff fp nt not_False_eq_True)
  from generateModelSpec_returns_keyword[OF t] kw obtain b where
    b: "generateModelSpec sha256_sample (Some ''robot fleet'') = Inr b" by (auto simp only: fp)
  from mesh_count_bounds[OF b] t
  have "1 \<le> length (meshes b) \<and> length (meshes b) \<le> 4 \<and> int (length (meshes b)) = 4"
    by (simp add: fp mt clamp_def)
  then show ?thesis by (simp add: b)
qed

text \<open>
  C6 (primary transform identity): off the named-template path, the first mesh of the
  returned blueprint has position (0,0,0), rotation (0,0,0) and scale (1,1,1).
\<close>

theorem primary_transform_identity:
  assumes "\<not> template_path_taken sha256 P" and "generateModelSpec sha256 P = Inr b"
  shows "meshes b \<noteq> []
    \<and> transform (hd (meshes b)) =
        \<lparr> position = (0, 0, 0), rotation = (0, 0, 0), scale = (1, 1, 1) \<rparr>"
proof -
  from generateModelSpec_generic_Inr[OF assms] obtain theme s1 where
    b: "b = generic_blueprint (fallbackPrompt P) (createSeed sha256 (fallbackPrompt P))
               (analyzePromptHints (fallbackPrompt P)) theme s1" by blast
  show ?thesis unfolding b by (rule generic_blueprint_first)
qed

text \<open>C6 at the prompt "dragon".\<close>

theorem primary_transform_identity_witness:
  "case generateModelSpec sha256_sample (Some ''dragon'') of
     Inl e \<Rightarrow> False
   | Inr b \<Rightarrow> meshes b \<noteq> []
       \<and> transform (hd (meshes b)) =
           \<lparr> position = (0, 0, 0), rotation = (0, 0, 0), scale = (1, 1, 1) \<rparr>"
proof -
  have fp: "fallbackPrompt (Some ''dragon'') = ''dragon''" by code_simp
  have nt: "\<not> includesAny (toLowerCase ''dragon'') [''cricket bat'', ''bat'']" by code_simp
  have kw: "find (\<lambda>preset. list_ex (\<lambda>keyword. str_includes (toLowerCase ''dragon'') keyword)
              (theme_keywords preset)) THEME_PRESETS \<noteq> None" by code_simp
  have t: "\<not> template_path_taken sha256_sample (Some ''dragon'')"
    by (simp only: template_path_taken_iff fp nt not_False_eq_True)
  from generateModelSpec_returns_keyword[OF t] kw obtain b where
    b: "generateModelSpec sha256_sample (Some ''dragon'') = Inr b" by (auto simp only: fp)
  from primary_transform_identity[OF t b] show ?thesis by (simp add: b)
qed

text \<open>
  C10 (the environment hint overrides the theme): on the generic path the environment of the
  blueprint is the tag of the first entry of the environment keyword table that has a
  keyword in the lower-cased prompt, and the environment of the selected theme when no
  entry has one.
\<close>

theorem environment_hint_overrides_theme:
  assumes "\<not> template_path_taken sha256 P" and "generateModelSpec sha256 P = Inr b"
  shows "\<exists>theme s1.
      pickTheme (fallbackPrompt P) (createGenerator (createSeed sha256 (fallbackPrompt P)))
        (Some (analyzePromptHints (fallbackPrompt P))) = (Some theme, s1)
    \<and> environment b =
        (case find (\<lambda>(e, terms). includesAny (toLowerCase (fallbackPrompt P)) terms)
                ENVIRONMENT_KEYWORDS of
           Some (e, terms) \<Rightarrow> e
         | None \<Rightarrow> theme_environment theme)"
proof -
  from generateModelSpec_generic_Inr[OF assms] obtain theme s1 where
    pt: "pickTheme (fallbackPrompt P) (createGenerator (createSeed sha256 (fallbackPrompt P)))
       (Some (analyzePromptHints (fallbackPrompt P))) = (Some theme, s1)"
    and b: "b = generic_blueprint (fallbackPrompt P) (createSeed sha256 (fallbackPrompt P))
               (analyzePromptHints (fallbackPrompt P)) theme s1" by blast
  have "environment b =
        (case find (\<lambda>(e, terms). includesAny (toLowerCase (fallbackPrompt P)) terms)
                ENVIRONMENT_KEYWORDS of
           Some (e, terms) \<Rightarrow> e
         | None \<Rightarrow> theme_environment theme)"
    unfolding b
    by (simp add: generic_blueprint_def analyzePromptHints_def Let_def split: option.splits)
  with pt show ?thesis by blast
qed

text \<open>
  C10 at the prompt "robot in a forest": the theme is the mechanical one, whose environment
  is the city, and the hint is the sunset.
\<close>

theorem environment_hint_overrides_theme_witness:
  "case generateModelSpec sha256_sample (Some ''robot in a forest'') of
     Inl e \<Rightarrow> False
   | Inr b \<Rightarrow> environment b = Sunset"
proof -
  have fp: "fallbackPrompt (Some ''robot in a forest'') = ''robot in a forest''" by code_simp
  have nt: "\<not> includesAny (toLowerCase ''robot in a forest'') [''cricket bat'', ''bat'']"
    by code_simp
  have kw: "find (\<lambda>preset. list_ex (\<lambda>keyword.
              str_includes (toLowerCase ''robot in a forest'') keyword)
              (theme_keywords preset)) THEME_PRESETS \<noteq> None" by code_simp
  have env: "find (\<lambda>(e, terms). includesAny (toLowerCase ''robot in a forest'') terms)
               ENVIRONMENT_KEYWORDS =
             Some (Sunset, [''sunset'', ''dusk'', ''golden hour'', ''desert'', ''forest''])"
    by code_simp
  have t: "\<not> template_path_taken sha256_sample (Some ''robot in a forest'')"
    by (simp only: template_path_taken_iff fp nt not_False_eq_True)
  from generateModelSpec_returns_keyword[OF t] kw obtain b where
    b: "generateModelSpec sha256_sample (Some ''robot in a forest'') = Inr b" by (auto simp only: fp)
  from environment_hint_overrides_theme[OF t b] have "environment b = Sunset"
    by (auto simp only: fp env option.case prod.case)
  then show ?thesis by (simp add: b)
qed



text \<open>
  C1 (determinism): two calls of \<open>generateModelSpec\<close> on the same input, absent input
  included, have the same outcome, and when they return blueprints these have the same
  seed, environment and accent colour and the same meshes, field by field. The two calls
  start in any two worlds, in particular the second in the world that the first has left:
  each call creates its generator under a new handle and draws from that one only, and
  it leaves the variables of the generators that existed before it as they were.
\<close>

theorem generateModelSpec_deterministic:
  assumes "st_generateModelSpec sha256 P w = (r1, w1)"
    and "st_generateModelSpec sha256 P w' = (r2, w2)"
  shows "r1 = r2
    \<and> (\<forall>b1 b2. r1 = Inr b1 \<and> r2 = Inr b2 \<longrightarrow>
          seed b1 = seed b2 \<and> environment b1 = environment b2
        \<and> accentColor b1 = accentColor b2
        \<and> length (meshes b1) = length (meshes b2)
        \<and> (\<forall>i < length (meshes b1).
              geometry (meshes b1 ! i) = geometry (meshes b2 ! i)
            \<and> material (meshes b1 ! i) = material (meshes b2 ! i)
            \<and> transform (meshes b1 ! i) = transform (meshes b2 ! i)
            \<and> modifiers (meshes b1 ! i) = modifiers (meshes b2 ! i)
            \<and> mesh_id (meshes b1 ! i) = mesh_id (meshes b2 ! i)
            \<and> name (meshes b1 ! i) = name (meshes b2 ! i)))
    \<and> next_handle w < next_handle w1
    \<and> (\<forall>h < next_handle w. cell w1 h = cell w h)"
proof -
  have "r1 = fst (st_generateModelSpec sha256 P w)" using assms(1) by simp
  moreover have "r2 = fst (st_generateModelSpec sha256 P w')" using assms(2) by simp
  ultimately have e: "r1 = r2" by (simp only: st_generateModelSpec_fst)
  have "w1 = snd (st_generateModelSpec sha256 P w)" using assms(1) by simp
  then have f: "next_handle w < next_handle w1 \<and> (\<forall>h < next_handle w. cell w1 h = cell w h)"
    using st_generateModelSpec_frame[of w sha256 P] by simp
  from e f show ?thesis by auto
qed

text \<open>
  C1 at the prompt "a red robot drone", whose digest begins f6defa3e: a first call in the
  empty world, and a second call in the world that the first has left.
\<close>

theorem generateModelSpec_deterministic_witness:
  "fst (st_generateModelSpec sha256_sample (Some ''a red robot drone'')
          (snd (st_generateModelSpec sha256_sample (Some ''a red robot drone'') empty_world)))
     = fst (st_generateModelSpec sha256_sample (Some ''a red robot drone'') empty_world)
   \<and> (case fst (st_generateModelSpec sha256_sample (Some ''a red robot drone'') empty_world) of
        Inl e \<Rightarrow> False
      | Inr b \<Rightarrow> seed b = 4141808190 \<and> prompt b = ''a red robot drone'')
   \<and> next_handle empty_world
       < next_handle (snd (st_generateModelSpec sha256_sample (Some ''a red robot drone'')
                             empty_world))"
proof -
  let ?c1 = "st_generateModelSpec sha256_sample (Some ''a red robot drone'') empty_world"
  let ?c2 = "st_generateModelSpec sha256_sample (Some ''a red robot drone'') (snd ?c1)"
  have fp: "fallbackPrompt (Some ''a red robot drone'') = ''a red robot drone''" by code_simp
  have nt: "\<not> includesAny (toLowerCase ''a red robot drone'') [''cricket bat'', ''bat'']"
    by code_simp
  have kw: "find (\<lambda>preset. list_ex (\<lambda>keyword.
              str_includes (toLowerCase ''a red robot drone'') keyword)
              (theme_keywords preset)) THEME_PRESETS \<noteq> None" by code_simp
  from sample_returns(2)[OF fp nt kw] obtain b where
    b: "generateModelSpec sha256_sample (Some ''a red robot drone'') = Inr b" by blast
  have p1: "?c1 = (fst ?c1, snd ?c1)" and p2: "?c2 = (fst ?c2, snd ?c2)" by simp_all
  from generateModelSpec_deterministic[OF p1 p2]
  have e: "fst ?c1 = fst ?c2" and n: "next_handle empty_world < next_handle (snd ?c1)"
    by blast+
  have "seed b = 4141808190 \<and> prompt b = ''a red robot drone''"
    using generateModelSpec_prompt_seed[OF b]
    by (simp add: fp createSeed_def sha256_sample_def)
  moreover have "fst ?c1 = Inr b" by (simp only: st_generateModelSpec_fst b)
  ultimately show ?thesis using e n by simp
qed

text \<open>
  C2 (empty-input normalization): the absent prompt, the empty prompt and the prompt of
  three spaces give the result of the prompt "abstract artifact", which is a blueprint
  whose prompt is "abstract artifact" and whose seed is derived from that string.
\<close>

theorem empty_input_normalization:
  "generateModelSpec sha256 None = generateModelSpec sha256 (Some ''abstract artifact'')
   \<and> generateModelSpec sha256 (Some '''') = generateModelSpec sha256 (Some ''abstract artifact'')
   \<and> generateModelSpec sha256 (Some ''   '') = generateModelSpec sha256 (Some ''abstract artifact'')
   \<and> (\<exists>b. generateModelSpec sha256 (Some ''abstract artifact'') = Inr b
          \<and> prompt b = ''abstract artifact''
          \<and> seed b = createSeed sha256 ''abstract artifact'')"
proof -
  have fp: "fallbackPrompt (Some ''abstract artifact'') = ''abstract artifact''" by code_simp
  have f0: "fallbackPrompt None = ''abstract artifact''" by code_simp
  have f1: "fallbackPrompt (Some '''') = ''abstract artifact''" by code_simp
  have f2: "fallbackPrompt (Some ''   '') = ''abstract artifact''" by code_simp
  have nt: "\<not> includesAny (toLowerCase ''abstract artifact'') [''cricket bat'', ''bat'']"
    by code_simp
  have kw: "find (\<lambda>preset. list_ex (\<lambda>keyword.
              str_includes (toLowerCase ''abstract artifact'') keyword)
              (theme_keywords preset)) THEME_PRESETS \<noteq> None" by code_simp
  from sample_returns(2)[OF fp nt kw] obtain b where
    b: "generateModelSpec sha256 (Some ''abstract artifact'') = Inr b" by blast
  have e0: "generateModelSpec sha256 None = generateModelSpec sha256 (Some ''abstract artifact'')"
    by (rule generateModelSpec_cong) (simp_all only: f0 fp)
  have e1: "generateModelSpec sha256 (Some '''') = generateModelSpec sha256 (Some ''abstract artifact'')"
    by (rule generateModelSpec_cong) (simp_all only: f1 fp)
  have e2: "generateModelSpec sha256 (Some ''   '') = generateModelSpec sha256 (Some ''abstract artifact'')"
    by (rule generateModelSpec_cong) (simp_all only: f2 fp)
  show ?thesis using e0 e1 e2 b generateModelSpec_prompt_seed[OF b] by (simp add: fp)
qed

text \<open>C2 with the digest of "abstract artifact", which begins b9bf7041.\<close>

theorem empty_input_normalization_witness:
  "generateModelSpec sha256_sample None = generateModelSpec sha256_sample (Some ''   '')
   \<and> (case generateModelSpec sha256_sample None of
        Inl e \<Rightarrow> False
      | Inr b \<Rightarrow> prompt b = ''abstract artifact'' \<and> seed b = 3116331073)"
proof -
  from empty_input_normalization[of sha256_sample] obtain b where
    e: "generateModelSpec sha256_sample None = generateModelSpec sha256_sample (Some ''   '')"
    and g: "generateModelSpec sha256_sample None = Inr b"
    and p: "prompt b = ''abstract artifact''"
    and s: "seed b = createSeed sha256_sample ''abstract artifact''"
    by auto
  have "seed b = 3116331073" by (simp add: s createSeed_def sha256_sample_def)
  with p have "case generateModelSpec sha256_sample None of
        Inl e \<Rightarrow> False
      | Inr b \<Rightarrow> prompt b = ''abstract artifact'' \<and> seed b = 3116331073"
    by (simp add: g)
  with e show ?thesis by blast
qed

text \<open>
  C8 as stated (inputs that are equal after trimming have the same seed and blueprint)
  fails: " robot" and "robot" are equal after trimming, and the call hashes and records
  each as given, so the seeds (digests 2ce57fe9 and 18d63be1) and the blueprints differ.
\<close>

theorem trimmed_prompt_counterexample:
  "trim '' robot'' = trim ''robot''
   \<and> generateModelSpec sha256_sample (Some '' robot'')
       \<noteq> generateModelSpec sha256_sample (Some ''robot'')
   \<and> createSeed sha256_sample (fallbackPrompt (Some '' robot''))
       \<noteq> createSeed sha256_sample (fallbackPrompt (Some ''robot''))"
proof -
  have tr: "trim '' robot'' = trim ''robot''" by code_simp
  have fp1: "fallbackPrompt (Some '' robot'') = '' robot''" by code_simp
  have fp2: "fallbackPrompt (Some ''robot'') = ''robot''" by code_simp
  have nt1: "\<not> includesAny (toLowerCase '' robot'') [''cricket bat'', ''bat'']" by code_simp
  have nt2: "\<not> includesAny (toLowerCase ''robot'') [''cricket bat'', ''bat'']" by code_simp
  have kw1: "find (\<lambda>preset. list_ex (\<lambda>keyword. str_includes (toLowerCase '' robot'') keyword)
              (theme_keywords preset)) THEME_PRESETS \<noteq> None" by code_simp
  have kw2: "find (\<lambda>preset. list_ex (\<lambda>keyword. str_includes (toLowerCase ''robot'') keyword)
              (theme_keywords preset)) THEME_PRESETS \<noteq> None" by code_simp
  from sample_returns(2)[OF fp1 nt1 kw1] obtain b1 where
    b1: "generateModelSpec sha256_sample (Some '' robot'') = Inr b1" by blast
  from sample_returns(2)[OF fp2 nt2 kw2] obtain b2 where
    b2: "generateModelSpec sha256_sample (Some ''robot'') = Inr b2" by blast
  have "prompt b1 = '' robot''" using generateModelSpec_prompt_seed[OF b1] by (simp add: fp1)
  moreover have "prompt b2 = ''robot''" using generateModelSpec_prompt_seed[OF b2] by (simp add: fp2)
  ultimately have "b1 \<noteq> b2" by auto
  then have ne: "generateModelSpec sha256_sample (Some '' robot'')
       \<noteq> generateModelSpec sha256_sample (Some ''robot'')" by (simp add: b1 b2)
  have sd: "createSeed sha256_sample (fallbackPrompt (Some '' robot''))
       \<noteq> createSeed sha256_sample (fallbackPrompt (Some ''robot''))"
    by (simp add: fp1 fp2 createSeed_def sha256_sample_def)
  show ?thesis using tr ne sd by blast
qed

text \<open>
  C8, amended: the seed is a function of the substituted prompt, which is the input itself,
  untrimmed, when it has a character that is not white space, and "abstract artifact"
  otherwise. Two inputs with the same substituted prompt have the same seed and the same
  result, and a returned blueprint records that prompt and that seed.
\<close>

theorem seed_function_of_substituted_prompt:
  assumes "fallbackPrompt P = fallbackPrompt Q"
  shows "createSeed sha256 (fallbackPrompt P) = createSeed sha256 (fallbackPrompt Q)
    \<and> generateModelSpec sha256 P = generateModelSpec sha256 Q
    \<and> (\<forall>b. generateModelSpec sha256 P = Inr b \<longrightarrow>
          seed b = createSeed sha256 (fallbackPrompt P) \<and> prompt b = fallbackPrompt P)"
  using assms generateModelSpec_cong[of P Q sha256 sha256] generateModelSpec_prompt_seed[of sha256 P]
  by auto

text \<open>C8, amended, at the prompt of two spaces and the absent prompt.\<close>

theorem seed_function_of_substituted_prompt_witness:
  "fallbackPrompt (Some ''  '') = fallbackPrompt None
   \<and> generateModelSpec sha256_sample (Some ''  '') = generateModelSpec sha256_sample None
   \<and> createSeed sha256_sample (fallbackPrompt (Some ''  '')) = 3116331073"
proof -
  have f: "fallbackPrompt (Some ''  '') = fallbackPrompt None" by code_simp
  have f0: "fallbackPrompt None = ''abstract artifact''" by code_simp
  from seed_function_of_substituted_prompt[OF f, of sha256_sample]
  show ?thesis using f by (simp add: f0 createSeed_def sha256_sample_def)
qed

text \<open>
  C7 (range containment: every geometry parameter of a mesh of the generic path lies in the
  range of its kind, and metalness and roughness lie in [0,1]). The code at the prompt
  "robot 2247111167", whose digest begins 00000000, so that the seed is 0 and every draw is
  -1/2147483646: both reads of a geometry kind are at index -1, the kind is \<open>undefined\<close>,
  and the one mesh is an icosahedron of radius below 1.2 and detail -1. The lemmas
  \<open>geometry_in_declared_range_sound_seed\<close> and \<open>material_unit_interval\<close> are the claim on
  the seeds that are not a multiple of 2147483647.
\<close>

theorem degenerate_seed_geometry_out_of_range:
  "case generateModelSpec sha256_sample (Some ''robot 2247111167'') of
     Inl e \<Rightarrow> False
   | Inr b \<Rightarrow> seed b = 0
       \<and> map geometry (meshes b) = [IcosahedronGeometry (1.2 + 0.5 * (- 1 / 2147483646)) (- 1)]
       \<and> map mesh_id (meshes b) = [''undefined-0-0'']
       \<and> \<not> in_declared_range (geometry (hd (meshes b)))"
proof -
  let ?p = "''robot 2247111167''"
  let ?h = "analyzePromptHints ?p"
  have fp: "fallbackPrompt (Some ?p) = ?p" by code_simp
  have nt: "\<not> includesAny (toLowerCase ?p) [''cricket bat'', ''bat'']" by code_simp
  have h1: "preferredThemeId ?h = Some ''mechanical''" by code_simp
  have h2: "meshTarget ?h = None" by code_simp
  have h3: "geometryPreference ?h = None" by code_simp
  have sd: "createSeed sha256_sample ?p = 0" by (simp add: createSeed_def sha256_sample_def)
  have t: "\<not> template_path_taken sha256_sample (Some ?p)"
    by (simp only: template_path_taken_iff fp nt not_False_eq_True)
  have pt: "pickTheme ?p 0 (Some ?h) = (Some (hd THEME_PRESETS), 0)"
    by (simp add: pickTheme_def h1 THEME_PRESETS_def)
  have g: "generateModelSpec sha256_sample (Some ?p) =
             Inr (generic_blueprint ?p 0 ?h (hd THEME_PRESETS) 0)"
    using generateModelSpec_generic[OF t] by (simp add: fp sd createGenerator_def pt)
  have mc: "meshCount ?h 0 = (1, 0)"
    by (simp add: meshCount_def h2 case_prod_beta rand_zero_snd floor_draw_zero)
  let ?ctx = "\<lparr> ctx_palette = fst (resolvePalette (hd THEME_PRESETS) ?h),
                 ctx_accentColor = snd (resolvePalette (hd THEME_PRESETS) ?h),
                 ctx_primaryGeometry = geometryPreference ?h,
                 ctx_detailBias = detailBias ?h \<rparr>"
  have ms: "meshes (generic_blueprint ?p 0 ?h (hd THEME_PRESETS) 0) =
              [fst (createMeshDescriptor (hd THEME_PRESETS) ?p 0 0 ?ctx)]"
    by (simp add: generic_blueprint_def mc clamp_def meshes_loop_first
        meshes_loop.simps[of _ _ _ 1 "Suc 0"])
  have gk: "geometryKind (hd THEME_PRESETS) ?ctx 0 0 = (None, 0)"
    by (simp add: geometryKind_def geometryPool_def primaryCandidates_def case_prod_beta
        rand_zero_snd floor_draw_zero rand_zero_neg js_index_def Let_def THEME_PRESETS_def)
  have geo: "geometry (fst (createMeshDescriptor (hd THEME_PRESETS) ?p 0 0 ?ctx)) =
               IcosahedronGeometry (1.2 + 0.5 * fst (rand 0)) (- 1)"
    by (simp only: cmd_geometry gk fst_conv snd_conv createGeometry_undefined_zero)
  have z: "int_toString 0 = ''0''" by code_simp
  have mid: "mesh_id (fst (createMeshDescriptor (hd THEME_PRESETS) ?p 0 0 ?ctx)) = ''undefined-0-0''"
    by (simp add: createMeshDescriptor_def Let_def case_prod_beta gk createGeometry_undefined_zero
        createTransform_def randomRange_zero_snd rand_zero_snd round_draw_zero z
        del: createGeometry.simps)
  have sdb: "seed (generic_blueprint ?p 0 ?h (hd THEME_PRESETS) 0) = 0"
    by (simp add: generic_blueprint_def)
  show ?thesis
    by (simp add: g ms geo mid sdb rand_zero_fst)
qed

end
